theory Spec2Isabelle
  imports Complex_Main
begin

section \<open>The time-formatting utility (src/index.ts, getTimeDisplay)\<close>

text \<open>
  A JavaScript number is a finite value or one of the three special values. Finite values
  are idealised as real numbers; the only finite values the formatter ever prints are the
  results of \<^verbatim>\<open>Math.floor\<close>. The rounding of a quotient to a double and the
  exponent notation of numbers from \<open>1e21\<close> on are not part of the model, so the facts
  about finite arguments below are facts about the code for arguments that are exact
  doubles with exact quotients, far below \<open>1e21\<close>.
\<close>

datatype number = Finite real | NaN | Infinity | NegInfinity

fun isFinite :: "number \<Rightarrow> bool" where
  "isFinite (Finite r) = True"
| "isFinite NaN = False"
| "isFinite Infinity = False"
| "isFinite NegInfinity = False"

text \<open>The value of a finite number (only read where \<open>isFinite\<close> holds).\<close>

fun finiteValue :: "number \<Rightarrow> real" where
  "finiteValue (Finite r) = r"
| "finiteValue NaN = 0"
| "finiteValue Infinity = 0"
| "finiteValue NegInfinity = 0"

text \<open>\<^verbatim>\<open>x >= c\<close> for a finite constant \<open>c\<close>: false on NaN, true on +Infinity.\<close>

fun number_ge :: "number \<Rightarrow> real \<Rightarrow> bool" where
  "number_ge (Finite r) c = (c \<le> r)"
| "number_ge NaN c = False"
| "number_ge Infinity c = True"
| "number_ge NegInfinity c = False"

text \<open>\<^verbatim>\<open>x / c\<close> for a finite positive constant \<open>c\<close>.\<close>

fun number_div :: "number \<Rightarrow> real \<Rightarrow> number" where
  "number_div (Finite r) c = Finite (r / c)"
| "number_div NaN c = NaN"
| "number_div Infinity c = Infinity"
| "number_div NegInfinity c = NegInfinity"

fun Math_floor :: "number \<Rightarrow> number" where
  "Math_floor (Finite r) = Finite (of_int \<lfloor>r\<rfloor>)"
| "Math_floor NaN = NaN"
| "Math_floor Infinity = Infinity"
| "Math_floor NegInfinity = NegInfinity"

text \<open>The remainder operator \<^verbatim>\<open>%\<close> on finite operands: the quotient is truncated
  towards zero, so the result has the sign of the dividend.\<close>

definition js_rem :: "real \<Rightarrow> real \<Rightarrow> real" where
  "js_rem a b =
     (let q = a / b in a - b * of_int (if 0 \<le> q then \<lfloor>q\<rfloor> else \<lceil>q\<rceil>))"

definition digitChar :: "nat \<Rightarrow> char" where
  "digitChar d = ''0123456789'' ! d"

function natToString :: "nat \<Rightarrow> string" where
  "natToString n = (if n < 10 then [digitChar n] else natToString (n div 10) @ [digitChar (n mod 10)])"
  by pat_completeness auto
termination
  by (relation "measure (\<lambda>n. n)") auto

declare natToString.simps [simp del]

definition intToString :: "int \<Rightarrow> string" where
  "intToString i = (if i < 0 then ''-'' @ natToString (nat (- i)) else natToString (nat i))"

text \<open>The two-digit fields of the formats \<open>M:SS\<close> and \<open>H:MM:SS\<close>.\<close>

definition twoDigits :: "nat \<Rightarrow> string" where
  "twoDigits n = [digitChar (n div 10), digitChar (n mod 10)]"

text \<open>String conversion of a number, as string concatenation and template literals do it.
  Finite numbers are printed as integers: every finite number converted in this program
  is integer-valued.\<close>

fun toString :: "number \<Rightarrow> string" where
  "toString (Finite r) = intToString \<lfloor>r\<rfloor>"
| "toString NaN = ''NaN''"
| "toString Infinity = ''Infinity''"
| "toString NegInfinity = ''-Infinity''"

text \<open>
  \<^verbatim>\<open>remainingTime\<close> starts as \<^verbatim>\<open>seconds\<close> and is reset to 0 when that is not finite,
  so it is finite throughout. The guard of the hours branch reads \<^verbatim>\<open>seconds\<close>, not
  \<^verbatim>\<open>remainingTime\<close>, and so does the hours quotient.
\<close>

definition getTimeDisplay :: "number \<Rightarrow> string" where
  "getTimeDisplay seconds =
     (let remainingTime0 = (if \<not> isFinite seconds then 0 else finiteValue seconds);
          hours = number_ge seconds 3600;
          remainingTime1 = (if hours then js_rem remainingTime0 3600 else remainingTime0);
          result1 = (if hours then toString (Math_floor (number_div seconds 3600)) @ '':'' else []);
          minutes = \<lfloor>remainingTime1 / 60\<rfloor>;
          remainingTime2 = js_rem remainingTime1 60;
          result2 = (if result1 \<noteq> [] \<and> minutes < 10 then result1 @ ''0'' else result1);
          result3 = result2 @ intToString minutes @ '':'';
          result4 = (if remainingTime2 < 10 then result3 @ ''0'' else result3)
      in result4 @ intToString \<lfloor>remainingTime2\<rfloor>)"

section \<open>Data model of the player (src/index.ts, lines 1-42 and 73-115)\<close>

datatype RepeatMode = noRepeat | repeatOnce | repeatFull

record PlayerTrack =
  id_t :: string
  url :: string

record PlayerState =
  volume :: real
  isPaused :: bool
  position :: real
  repeatMode :: RepeatMode
  isShuffled :: bool
  currentTrack :: "PlayerTrack option"
  priorityTracks :: "PlayerTrack list"
  nextTracks :: "PlayerTrack list"
  previousTracks :: "PlayerTrack list"

datatype PlayerError = PlayerError string

text \<open>
  The event handlers the player installs on an audio element are closures over the
  player; the one for \<^verbatim>\<open>onerror\<close> also captures the track it was installed for.
\<close>

datatype handler =
    LoadError PlayerTrack
  | BufferNextTrack
  | PlayerProgress
  | PlayerTrackEnd

text \<open>
  The part of \<^verbatim>\<open>HTMLAudioElement\<close> the player reads and writes. Property
  assignments are plain stores that do not throw; \<^verbatim>\<open>pause()\<close> sets \<open>paused\<close>; the
  outcome of \<^verbatim>\<open>play()\<close> belongs to the browser and is a parameter of the model
  (\<open>audioPlay\<close> below). Volumes, positions and times are real numbers. Two sources
  are compared as the strings that were assigned.
\<close>

record HTMLAudioElement =
  volume_el :: real
  loop :: bool
  currentTime :: real
  src :: string
  preload :: string
  paused :: bool
  onerror :: "handler option"
  oncanplaythrough :: "handler option"
  onprogress :: "handler option"
  onended :: "handler option"

definition newAudio :: HTMLAudioElement where
  "newAudio = \<lparr> volume_el = 1, loop = False, currentTime = 0, src = [], preload = [],
      paused = True, onerror = None, oncanplaythrough = None, onprogress = None,
      onended = None \<rparr>"

text \<open>What the observers of the player receive, in the order of the calls.\<close>

datatype notification =
    TrackStart PlayerTrack
  | TrackEnd PlayerTrack
  | StateChanged PlayerState
  | Error PlayerError

text \<open>
  The fields of the class, followed by what the model adds to make effects and the
  environment explicit:
  \<^item> the four optional observer callbacks are flags (supplied or not), and what they are
    called with is appended to \<open>notifications\<close>; an observer returns normally and does
    not call back into the player;
  \<^item> the optional shuffle function is a function of values that returns its list or
    throws;
  \<^item> \<open>nextTracksShared\<close> records that \<^verbatim>\<open>state.nextTracks\<close> and
    \<^verbatim>\<open>nonShuffledNextTracks\<close> are one and the same array object, so that an
    in-place \<^verbatim>\<open>shift()\<close> is seen through both names;
  \<^item> \<open>detached\<close> holds the audio elements that a slot referred to when it was set to
    null, as they were at that moment (the element itself lives on in the browser);
  \<^item> \<open>audioPlay\<close> is the outcome of \<^verbatim>\<open>HTMLAudioElement.play()\<close>: resolved
    (\<open>None\<close>) or rejected with an error;
  \<^item> \<open>mathRandom\<close> is the sequence of values \<^verbatim>\<open>Math.random()\<close> returns, each in
    \<open>[0, 1)\<close>, and \<open>randomCalls\<close> counts the values consumed.
\<close>

record Player =
  state :: PlayerState
  onTrackStart :: bool
  onTrackEnd :: bool
  onStateChanged :: bool
  onError :: bool
  shuffle :: "(PlayerTrack list \<Rightarrow> PlayerState \<Rightarrow> PlayerError + PlayerTrack list) option"
  isAudio1Active :: bool
  audio1 :: "HTMLAudioElement option"
  audio2 :: "HTMLAudioElement option"
  nonShuffledNextTracks :: "PlayerTrack list"
  nextTracksShared :: bool
  notifications :: "notification list"
  detached :: "HTMLAudioElement list"
  audioPlay :: "HTMLAudioElement \<Rightarrow> PlayerError option"
  mathRandom :: "nat \<Rightarrow> real"
  randomCalls :: nat

text \<open>The constructor (lines 94-115), given the parameters and the environment.\<close>

definition newPlayer ::
  "real \<Rightarrow> bool \<Rightarrow> bool \<Rightarrow> bool \<Rightarrow> bool \<Rightarrow>
   (PlayerTrack list \<Rightarrow> PlayerState \<Rightarrow> PlayerError + PlayerTrack list) option \<Rightarrow>
   (HTMLAudioElement \<Rightarrow> PlayerError option) \<Rightarrow> (nat \<Rightarrow> real) \<Rightarrow> Player" where
  "newPlayer vol hasTrackStart hasTrackEnd hasStateChanged hasError shuf playOutcome rnd =
     \<lparr> state = \<lparr> volume = vol, isPaused = True, position = 0, repeatMode = noRepeat,
           isShuffled = False, currentTrack = None, priorityTracks = [], nextTracks = [],
           previousTracks = [] \<rparr>,
       onTrackStart = hasTrackStart, onTrackEnd = hasTrackEnd,
       onStateChanged = hasStateChanged, onError = hasError, shuffle = shuf,
       isAudio1Active = True, audio1 = None, audio2 = None, nonShuffledNextTracks = [],
       nextTracksShared = False, notifications = [], detached = [],
       audioPlay = playOutcome, mathRandom = rnd, randomCalls = 0 \<rparr>"

section \<open>Private helpers of the class\<close>

definition notify :: "notification \<Rightarrow> Player \<Rightarrow> Player" where
  "notify n p = p\<lparr>notifications := notifications p @ [n]\<rparr>"

text \<open>Lines 555-571.\<close>

definition triggerOnTrackStart :: "Player \<Rightarrow> Player" where
  "triggerOnTrackStart p =
     (case currentTrack (state p) of
        Some t \<Rightarrow> if onTrackStart p then notify (TrackStart t) p else p
      | None \<Rightarrow> p)"

definition triggerOnTrackEnd :: "PlayerTrack \<Rightarrow> Player \<Rightarrow> Player" where
  "triggerOnTrackEnd track p = (if onTrackEnd p then notify (TrackEnd track) p else p)"

definition triggerOnStateChange :: "Player \<Rightarrow> Player" where
  "triggerOnStateChange p = (if onStateChanged p then notify (StateChanged (state p)) p else p)"

text \<open>The body of every \<^verbatim>\<open>catch (ex)\<close> block: the error goes to \<^verbatim>\<open>onError\<close>
  when that was supplied, and is dropped otherwise.\<close>

definition catchError :: "PlayerError \<Rightarrow> Player \<Rightarrow> Player" where
  "catchError ex p = (if onError p then notify (Error ex) p else p)"

text \<open>The two slots, addressed by a flag: \<open>True\<close> is \<^verbatim>\<open>audio1\<close>.\<close>

definition audioSlot :: "bool \<Rightarrow> Player \<Rightarrow> HTMLAudioElement option" where
  "audioSlot one p = (if one then audio1 p else audio2 p)"

definition setSlot :: "bool \<Rightarrow> HTMLAudioElement option \<Rightarrow> Player \<Rightarrow> Player" where
  "setSlot one a p = (if one then p\<lparr>audio1 := a\<rparr> else p\<lparr>audio2 := a\<rparr>)"

text \<open>A write through a reference to the element in a slot.\<close>

definition updSlot :: "bool \<Rightarrow> (HTMLAudioElement \<Rightarrow> HTMLAudioElement) \<Rightarrow> Player \<Rightarrow> Player" where
  "updSlot one f p = setSlot one (map_option f (audioSlot one p)) p"

text \<open>\<^verbatim>\<open>this.audioN = null\<close>: the slot forgets the element; the element stays as it is.\<close>

definition releaseSlot :: "bool \<Rightarrow> Player \<Rightarrow> Player" where
  "releaseSlot one p =
     (case audioSlot one p of
        None \<Rightarrow> p
      | Some a \<Rightarrow> setSlot one None (p\<lparr>detached := detached p @ [a]\<rparr>))"

text \<open>The four assignments of null that precede a release in lines 454-457, 460-463,
  490-493 and 505-508.\<close>

definition clearCallbacks :: "HTMLAudioElement \<Rightarrow> HTMLAudioElement" where
  "clearCallbacks a = a\<lparr>onerror := None, onprogress := None, onended := None,
     oncanplaythrough := None\<rparr>"

text \<open>Lines 343-349.\<close>

definition activeAudioElement :: "Player \<Rightarrow> HTMLAudioElement option" where
  "activeAudioElement p = (if isAudio1Active p then audio1 p else audio2 p)"

text \<open>\<^verbatim>\<open>Array.prototype.slice\<close> on integer arguments: a negative index counts from the
  end, and both ends are clamped to the array.\<close>

definition relativeIndex :: "int \<Rightarrow> nat \<Rightarrow> nat" where
  "relativeIndex i len = (if i < 0 then nat (max (int len + i) 0) else min (nat i) len)"

definition slice :: "'a list \<Rightarrow> int \<Rightarrow> int \<Rightarrow> 'a list" where
  "slice xs start end =
     (let k = relativeIndex start (length xs); final = relativeIndex end (length xs)
      in take (final - k) (drop k xs))"

definition sliceFrom :: "'a list \<Rightarrow> int \<Rightarrow> 'a list" where
  "sliceFrom xs start = drop (relativeIndex start (length xs)) xs"

text \<open>Lines 538-553: the loop runs \<open>currentIndex\<close> down to 0 and uses one random value
  per round.\<close>

fun shuffleLoop :: "nat \<Rightarrow> (nat \<Rightarrow> real) \<Rightarrow> nat \<Rightarrow> 'a list \<Rightarrow> 'a list" where
  "shuffleLoop 0 rnd k shuffledTrackList = shuffledTrackList"
| "shuffleLoop (Suc n) rnd k shuffledTrackList =
     (let randomIndex = nat \<lfloor>rnd k * real (Suc n)\<rfloor>;
          currentIndex = n;
          tempValue = shuffledTrackList ! currentIndex
      in shuffleLoop currentIndex rnd (Suc k)
           (shuffledTrackList[currentIndex := shuffledTrackList ! randomIndex,
                              randomIndex := tempValue]))"

definition defaultShuffle :: "Player \<Rightarrow> PlayerTrack list \<Rightarrow> PlayerTrack list" where
  "defaultShuffle p nonShuffled =
     shuffleLoop (length nonShuffled) (mathRandom p) (randomCalls p) nonShuffled"

text \<open>Lines 477-536.\<close>

definition bufferNextTrack :: "Player \<Rightarrow> Player" where
  "bufferNextTrack p =
     (let nextTrack =
            (if priorityTracks (state p) \<noteq> [] then Some (hd (priorityTracks (state p)))
             else if nextTracks (state p) \<noteq> [] then Some (hd (nextTracks (state p)))
             else None)
      in case nextTrack of
           None \<Rightarrow> p
         | Some t \<Rightarrow>
             (let standby = \<not> isAudio1Active p;
                  p1 = (case audioSlot standby p of
                          Some a \<Rightarrow>
                            if src a \<noteq> url t
                            then releaseSlot standby (updSlot standby clearCallbacks p)
                            else p
                        | None \<Rightarrow> p);
                  p2 = (if audioSlot standby p1 = None then setSlot standby (Some newAudio) p1
                        else p1);
                  p3 = updSlot standby
                         (\<lambda>buffer. if onError p \<and> onerror buffer = None
                                    then buffer\<lparr>onerror := Some (LoadError t)\<rparr> else buffer) p2
              in updSlot standby (\<lambda>buffer. buffer\<lparr>preload := ''auto'', src := url t\<rparr>) p3))"

text \<open>Lines 381-393 of \<^verbatim>\<open>playNextTrack\<close>: the track to play and the player after the
  queue has given it up. A \<^verbatim>\<open>shift()\<close> on \<^verbatim>\<open>nextTracks\<close> is also a shift on the
  shadow list when the two are one array.\<close>

definition takeNextTrack :: "PlayerTrack option \<Rightarrow> Player \<Rightarrow> PlayerTrack option \<times> Player" where
  "takeNextTrack manualNextTrack p =
     (case manualNextTrack of
        Some t \<Rightarrow> (Some t, p)
      | None \<Rightarrow>
          (case priorityTracks (state p) of
             t # rest \<Rightarrow> (Some t, p\<lparr>state := (state p)\<lparr>priorityTracks := rest\<rparr>\<rparr>)
           | [] \<Rightarrow>
               (case nextTracks (state p) of
                  t # rest \<Rightarrow>
                    (let p1 = p\<lparr>state := (state p)\<lparr>nextTracks := rest\<rparr>\<rparr>;
                         p2 = (if nextTracksShared p then p1\<lparr>nonShuffledNextTracks := rest\<rparr>
                               else p1)
                     in (Some t,
                         if \<not> isShuffled (state p)
                         then p2\<lparr>nonShuffledNextTracks := rest, nextTracksShared := True\<rparr>
                         else p2))
                | [] \<Rightarrow> (None, p))))"

text \<open>Lines 395-399.\<close>

definition pushPrevious :: "PlayerTrack option \<Rightarrow> Player \<Rightarrow> Player" where
  "pushPrevious nextTrack p =
     (case currentTrack (state p) of
        None \<Rightarrow> p
      | Some c \<Rightarrow>
          if (case nextTrack of None \<Rightarrow> True | Some t \<Rightarrow> id_t c \<noteq> id_t t)
          then triggerOnTrackEnd c
                 (p\<lparr>state := (state p)\<lparr>previousTracks := c # previousTracks (state p)\<rparr>\<rparr>)
          else p)"

text \<open>Lines 402-468: the active flag flips, the now-active slot gets an element if it has
  none, the handlers and the source are set, and unless the track was given by the caller
  the other slot is torn down.\<close>

definition startTrack :: "PlayerTrack option \<Rightarrow> PlayerTrack \<Rightarrow> Player \<Rightarrow> Player" where
  "startTrack manualNextTrack nextTrack p =
     (let p1 = p\<lparr>state := (state p)\<lparr>currentTrack := Some nextTrack\<rparr>,
                  isAudio1Active := \<not> isAudio1Active p\<rparr>;
          active = isAudio1Active p1;
          p2 = (if audioSlot active p1 = None then setSlot active (Some newAudio) p1 else p1);
          p3 = updSlot active
                 (\<lambda>audio. if onError p \<and> onerror audio = None
                           then audio\<lparr>onerror := Some (LoadError nextTrack)\<rparr> else audio) p2;
          p4 = updSlot active
                 (\<lambda>audio. audio\<lparr>oncanplaythrough := Some BufferNextTrack,
                                 onprogress := Some PlayerProgress,
                                 onended := Some PlayerTrackEnd,
                                 volume_el := volume (state p),
                                 src := url nextTrack,
                                 currentTime := 0\<rparr>) p3;
          p5 = (if manualNextTrack = None \<and> audioSlot (\<not> active) p4 \<noteq> None
                then releaseSlot (\<not> active) (updSlot (\<not> active) clearCallbacks p4)
                else p4)
      in triggerOnTrackStart p5)"

section \<open>The public operations and the sink event handlers\<close>

text \<open>
  Every operation runs to completion: an \<^verbatim>\<open>await\<close> is a call whose result is there at
  once, and the sink's events are operations of their own (\<open>bufferNextTrack\<close>,
  \<open>onPlayerProgress\<close>, \<open>onPlayerTrackEnd\<close>). With sinks and observers that do not
  throw, the only exception a \<^verbatim>\<open>catch\<close> block of the class can see is a rejected
  \<^verbatim>\<open>audio.play()\<close>, in \<^verbatim>\<open>play\<close>; the other \<^verbatim>\<open>try\<close> blocks are transparent.

  Lines 190-206 and 380-475. \<^verbatim>\<open>play\<close> without an active element advances the queue, and
  \<^verbatim>\<open>playNextTrack\<close> ends by calling \<^verbatim>\<open>play\<close>, then with an active element.
\<close>

function play :: "Player \<Rightarrow> Player"
  and playNextTrack :: "PlayerTrack option \<Rightarrow> Player \<Rightarrow> Player" where
  "play p =
     (case activeAudioElement p of
        Some audio \<Rightarrow>
          (case audioPlay p audio of
             None \<Rightarrow>
               triggerOnStateChange
                 ((updSlot (isAudio1Active p) (\<lambda>a. a\<lparr>paused := False\<rparr>) p)
                    \<lparr>state := (state p)\<lparr>isPaused := False\<rparr>\<rparr>)
           | Some ex \<Rightarrow> catchError ex p)
      | None \<Rightarrow> playNextTrack (currentTrack (state p)) p)"
| "playNextTrack manualNextTrack p =
     (case takeNextTrack manualNextTrack p of
        (nextTrack, p1) \<Rightarrow>
          (let p2 = pushPrevious nextTrack p1
           in case nextTrack of
                Some t \<Rightarrow> play (startTrack manualNextTrack t p2)
              | None \<Rightarrow>
                  if currentTrack (state p2) \<noteq> None
                  then triggerOnStateChange (p2\<lparr>state := (state p2)\<lparr>currentTrack := None\<rparr>\<rparr>)
                  else p2))"
  by pat_completeness auto
termination
proof (relation "measure (\<lambda>c. case c of
          Inl p \<Rightarrow> (if activeAudioElement p = None then 2 else 0)
        | Inr (m, p) \<Rightarrow> 1)", goal_cases)
  case 1
  show ?case by simp
next
  case (2 p)
  then show ?case by simp
next
  case (3 manualNextTrack p nextTrack p1 p2 t)
  have flag_set: "\<And>one a q. isAudio1Active (setSlot one a q) = isAudio1Active q"
    by (simp add: setSlot_def)
  have flag_upd: "\<And>one f q. isAudio1Active (updSlot one f q) = isAudio1Active q"
    by (simp add: updSlot_def flag_set)
  have flag_rel: "\<And>one q. isAudio1Active (releaseSlot one q) = isAudio1Active q"
    by (simp add: releaseSlot_def flag_set split: option.splits)
  have flag_start: "\<And>q. isAudio1Active (triggerOnTrackStart q) = isAudio1Active q"
    by (simp add: triggerOnTrackStart_def notify_def split: option.splits)
  have slot_set: "\<And>a one v q. audioSlot a (setSlot one v q) = (if a = one then v else audioSlot a q)"
    by (auto simp add: setSlot_def audioSlot_def)
  have slot_upd: "\<And>a one f q. audioSlot a (updSlot one f q) =
      (if a = one then map_option f (audioSlot a q) else audioSlot a q)"
    by (auto simp add: updSlot_def slot_set)
  have slot_det: "\<And>a q d. audioSlot a (q\<lparr>detached := d\<rparr>) = audioSlot a q"
    by (simp add: audioSlot_def)
  have slot_rel: "\<And>a one q. audioSlot a (releaseSlot one q) = (if a = one then None else audioSlot a q)"
    by (auto simp add: releaseSlot_def slot_set slot_det split: option.splits)
  have slot_start: "\<And>a q. audioSlot a (triggerOnTrackStart q) = audioSlot a q"
    by (simp add: triggerOnTrackStart_def notify_def audioSlot_def split: option.splits)
  have active: "\<And>q. activeAudioElement q = audioSlot (isAudio1Active q) q"
    by (simp add: activeAudioElement_def audioSlot_def)
  have "activeAudioElement (startTrack manualNextTrack t p2) \<noteq> None"
    by (simp add: startTrack_def Let_def active flag_set flag_upd flag_rel flag_start
        slot_set slot_upd slot_rel slot_start)
  then show ?case by simp
qed

declare play.simps [simp del] playNextTrack.simps [simp del]

text \<open>Lines 117-135.\<close>

definition setVolume :: "real \<Rightarrow> Player \<Rightarrow> Player" where
  "setVolume volumePercent p =
     (let p1 = p\<lparr>state := (state p)\<lparr>volume := volumePercent\<rparr>\<rparr>;
          vol = volumePercent / 100;
          p2 = updSlot True (\<lambda>a. a\<lparr>volume_el := vol\<rparr>) p1;
          p3 = updSlot False (\<lambda>a. a\<lparr>volume_el := vol\<rparr>) p2
      in triggerOnStateChange p3)"

text \<open>Lines 137-152.\<close>

definition setRepeatMode :: "RepeatMode \<Rightarrow> Player \<Rightarrow> Player" where
  "setRepeatMode mode p =
     (let p1 = p\<lparr>state := (state p)\<lparr>repeatMode := mode\<rparr>\<rparr>;
          p2 = updSlot (isAudio1Active p1) (\<lambda>audio. audio\<lparr>loop := (mode \<noteq> noRepeat)\<rparr>) p1
      in triggerOnStateChange p2)"

text \<open>
  An operation without a \<^verbatim>\<open>try\<close> block either returns or lets an exception escape to
  its caller; in both cases the player is left in some state.
\<close>

datatype completion = Returned Player | Thrown PlayerError Player

fun playerAfter :: "completion \<Rightarrow> Player" where
  "playerAfter (Returned p) = p"
| "playerAfter (Thrown ex p) = p"

text \<open>Lines 154-163. The supplied shuffle function is called on a copy of the shadow
  list and a copy of the state; what it returns is taken to be an array of its own.\<close>

definition enableShuffle :: "Player \<Rightarrow> completion" where
  "enableShuffle p =
     (let p1 = p\<lparr>state := (state p)\<lparr>isShuffled := True\<rparr>\<rparr>
      in case shuffle p1 of
           Some f \<Rightarrow>
             (case f (nonShuffledNextTracks p1) (state p1) of
                Inl ex \<Rightarrow> Thrown ex p1
              | Inr shuffled \<Rightarrow>
                  Returned (triggerOnStateChange
                    (p1\<lparr>state := (state p1)\<lparr>nextTracks := shuffled\<rparr>,
                        nextTracksShared := False\<rparr>)))
         | None \<Rightarrow>
             Returned (triggerOnStateChange
               (p1\<lparr>state := (state p1)\<lparr>nextTracks :=
                         defaultShuffle p1 (nonShuffledNextTracks p1)\<rparr>,
                   nextTracksShared := False,
                   randomCalls := randomCalls p1 + length (nonShuffledNextTracks p1)\<rparr>)))"

text \<open>Lines 165-170.\<close>

definition disableShuffle :: "Player \<Rightarrow> Player" where
  "disableShuffle p =
     triggerOnStateChange
       (p\<lparr>state := (state p)\<lparr>isShuffled := False, nextTracks := nonShuffledNextTracks p\<rparr>,
          nextTracksShared := True\<rparr>)"

text \<open>Lines 172-188.\<close>

definition pause :: "Player \<Rightarrow> Player" where
  "pause p =
     (let p1 = updSlot (isAudio1Active p) (\<lambda>audio. audio\<lparr>paused := True\<rparr>) p
      in if \<not> isPaused (state p1)
         then triggerOnStateChange (p1\<lparr>state := (state p1)\<lparr>isPaused := True\<rparr>\<rparr>)
         else p1)"

text \<open>Lines 208-214.\<close>

definition togglePlay :: "Player \<Rightarrow> Player" where
  "togglePlay p = (if isPaused (state p) then play p else pause p)"




text \<open>Lines 275-289.\<close>

definition nextTrack :: "Player \<Rightarrow> Player" where
  "nextTrack p =
     (let p1 = (case activeAudioElement p of
                  Some audio \<Rightarrow>
                    (updSlot (isAudio1Active p) (\<lambda>a. a\<lparr>paused := True\<rparr>) p)
                      \<lparr>state := (state p)\<lparr>isPaused := True\<rparr>\<rparr>
                | None \<Rightarrow> p)
      in playNextTrack None p1)"

text \<open>Lines 291-313.\<close>

definition queuePriorityTracks :: "PlayerTrack list \<Rightarrow> Player \<Rightarrow> Player" where
  "queuePriorityTracks tracks p =
     (let hadPriorityTracks = (priorityTracks (state p) \<noteq> []);
          p1 = p\<lparr>state := (state p)\<lparr>priorityTracks := priorityTracks (state p) @ tracks\<rparr>\<rparr>;
          p2 = (if \<not> hadPriorityTracks \<and> audioSlot (\<not> isAudio1Active p1) p1 \<noteq> None
                then bufferNextTrack p1 else p1)
      in triggerOnStateChange p2)"

definition removePriorityTrack :: "string \<Rightarrow> Player \<Rightarrow> Player" where
  "removePriorityTrack ident p =
     triggerOnStateChange
       (p\<lparr>state := (state p)\<lparr>priorityTracks :=
             filter (\<lambda>track. id_t track \<noteq> ident) (priorityTracks (state p))\<rparr>\<rparr>)"

definition clearPriorityTracks :: "Player \<Rightarrow> Player" where
  "clearPriorityTracks p = triggerOnStateChange (p\<lparr>state := (state p)\<lparr>priorityTracks := []\<rparr>\<rparr>)"

text \<open>Lines 321-341. The play index is an integer.\<close>

definition playTracks :: "PlayerTrack list \<Rightarrow> int \<Rightarrow> Player \<Rightarrow> Player" where
  "playTracks tracks playIndex p =
     (let p1 = updSlot (isAudio1Active p) (\<lambda>audio. audio\<lparr>paused := True\<rparr>) p;
          p2 = releaseSlot True p1;
          p3 = releaseSlot False p2;
          p4 = p3\<lparr>isAudio1Active := True\<rparr>;
          p5 = p4\<lparr>state := (state p4)\<lparr>priorityTracks := []\<rparr>\<rparr>;
          p6 = (if 0 < playIndex \<and> playIndex < int (length tracks)
                then p5\<lparr>state := (state p5)\<lparr>previousTracks := slice tracks 0 (playIndex - 1)\<rparr>\<rparr>
                else p5\<lparr>state := (state p5)\<lparr>previousTracks := []\<rparr>\<rparr>);
          p7 = p6\<lparr>state := (state p6)\<lparr>nextTracks := sliceFrom tracks playIndex\<rparr>,
                  nextTracksShared := False\<rparr>
      in play p7)"

text \<open>Lines 351-378: the handlers of the sink's progress and ended events.\<close>

definition onPlayerProgress :: "Player \<Rightarrow> Player" where
  "onPlayerProgress p =
     triggerOnStateChange
       (p\<lparr>state := (state p)\<lparr>position :=
             (case activeAudioElement p of Some audio \<Rightarrow> currentTime audio | None \<Rightarrow> 0)\<rparr>\<rparr>)"

definition onPlayerTrackEnd :: "Player \<Rightarrow> Player" where
  "onPlayerTrackEnd p =
     (case repeatMode (state p) of
        repeatOnce \<Rightarrow> setRepeatMode noRepeat p
      | noRepeat \<Rightarrow> playNextTrack None p
      | repeatFull \<Rightarrow> p)"

text \<open>A sequence of shuffle toggles; a caller that catches what \<^verbatim>\<open>enableShuffle\<close> lets
  escape goes on with the player as the call left it.\<close>

datatype toggle = Enable | Disable

fun applyToggle :: "toggle \<Rightarrow> Player \<Rightarrow> Player" where
  "applyToggle Enable p = playerAfter (enableShuffle p)"
| "applyToggle Disable p = disableShuffle p"

fun applyToggles :: "toggle list \<Rightarrow> Player \<Rightarrow> Player" where
  "applyToggles [] p = p"
| "applyToggles (t # ts) p = applyToggles ts (applyToggle t p)"

section \<open>Example data\<close>

definition trackA :: PlayerTrack where
  "trackA = \<lparr> id_t = ''a'', url = ''a.mp3'' \<rparr>"

definition trackB :: PlayerTrack where
  "trackB = \<lparr> id_t = ''b'', url = ''b.mp3'' \<rparr>"

definition trackC :: PlayerTrack where
  "trackC = \<lparr> id_t = ''c'', url = ''c.mp3'' \<rparr>"

text \<open>A new player with every observer supplied, the default shuffle, and a browser in
  which \<^verbatim>\<open>play()\<close> always resolves.\<close>

definition player0 :: Player where
  "player0 = newPlayer 100 True True True True None (\<lambda>_. None) (\<lambda>_. 0)"

text \<open>The same player with a shuffle function that throws.\<close>

definition throwingPlayer :: Player where
  "throwingPlayer =
     player0\<lparr>shuffle := Some (\<lambda>tracks st. Inl (PlayerError ''shuffle failed''))\<rparr>"

section \<open>Properties of the time formatter\<close>

lemma natToString_digit: "n < 10 \<Longrightarrow> natToString n = [digitChar n]"
  by (simp add: natToString.simps)

lemma natToString_two: "10 \<le> n \<Longrightarrow> n < 100 \<Longrightarrow>
    natToString n = [digitChar (n div 10), digitChar (n mod 10)]"
  by (subst natToString.simps) (simp add: natToString_digit)

lemma getTimeDisplay_0: "getTimeDisplay (Finite 0) = ''0:00''"
  by (simp add: getTimeDisplay_def js_rem_def intToString_def natToString_digit digitChar_def)

lemma getTimeDisplay_65: "getTimeDisplay (Finite 65) = ''1:05''"
  by (simp add: getTimeDisplay_def js_rem_def intToString_def natToString_digit digitChar_def)

lemma getTimeDisplay_3661: "getTimeDisplay (Finite 3661) = ''1:01:01''"
  by (simp add: getTimeDisplay_def js_rem_def intToString_def natToString_digit digitChar_def)

lemma getTimeDisplay_NaN: "getTimeDisplay NaN = ''0:00''"
  by (simp add: getTimeDisplay_def js_rem_def intToString_def natToString_digit digitChar_def)

lemma getTimeDisplay_NegInfinity: "getTimeDisplay NegInfinity = ''0:00''"
  by (simp add: getTimeDisplay_def js_rem_def intToString_def natToString_digit digitChar_def)

text \<open>
  For a finite duration the two formats are as specified: \<open>M:SS\<close> below one hour, with
  the minutes unpadded, and \<open>H:MM:SS\<close> from one hour on.
\<close>

lemma js_rem_nonneg:
  assumes "0 \<le> a" and "0 < b"
  shows "js_rem a (of_int b) = a - of_int (b * (\<lfloor>a\<rfloor> div b))"
proof -
  have "0 \<le> a / of_int b"
    using assms by simp
  moreover have "\<lfloor>a / of_int b\<rfloor> = \<lfloor>a\<rfloor> div b"
    using assms by (simp add: floor_divide_real_eq_div)
  ultimately show ?thesis
    by (simp add: js_rem_def Let_def)
qed

lemma js_rem_floor:
  assumes "0 \<le> a" and "0 < b"
  shows "\<lfloor>js_rem a (of_int b)\<rfloor> = \<lfloor>a\<rfloor> mod b"
proof -
  have "\<lfloor>a - of_int (b * (\<lfloor>a\<rfloor> div b))\<rfloor> = \<lfloor>a\<rfloor> - b * (\<lfloor>a\<rfloor> div b)"
    by (simp only: floor_diff_of_int)
  also have "\<dots> = \<lfloor>a\<rfloor> mod b"
    by (simp add: minus_mult_div_eq_mod)
  finally show ?thesis
    using assms by (simp add: js_rem_nonneg)
qed

lemma js_rem_range:
  assumes "0 \<le> a" and "0 < b"
  shows "0 \<le> js_rem a (of_int b)"
proof -
  have "0 \<le> \<lfloor>a\<rfloor> mod b"
    using assms by simp
  then have "0 \<le> \<lfloor>js_rem a (of_int b)\<rfloor>"
    using assms by (simp add: js_rem_floor)
  then show ?thesis
    by simp
qed

lemma js_rem_less:
  assumes "0 \<le> a" and "0 < b"
  shows "js_rem a (of_int b) < of_int c \<longleftrightarrow> \<lfloor>a\<rfloor> mod b < c"
  using js_rem_floor [OF assms] by (simp add: floor_less_iff [symmetric])

lemma padded_seconds:
  assumes "0 \<le> n" and "n < 60"
  shows "(if n < 10 then ''0'' else []) @ intToString n = twoDigits (nat n)"
proof (cases "n < 10")
  case True
  then have "nat n < 10" by simp
  then show ?thesis
    using True assms
    by (simp add: intToString_def natToString_digit twoDigits_def digitChar_def)
next
  case False
  then have "10 \<le> nat n" "nat n < 100"
    using assms by simp_all
  then show ?thesis
    using False assms by (simp add: intToString_def natToString_two twoDigits_def)
qed

lemma getTimeDisplay_minutes:
  assumes "0 \<le> r" and "r < 3600"
  shows "getTimeDisplay (Finite r) =
           natToString (nat \<lfloor>r\<rfloor> div 60) @ '':'' @ twoDigits (nat \<lfloor>r\<rfloor> mod 60)"
proof -
  define n where "n = \<lfloor>r\<rfloor>"
  have n0: "0 \<le> n"
    using assms by (simp add: n_def)
  have minutes: "\<lfloor>r / 60\<rfloor> = n div 60"
    using floor_divide_real_eq_div [of 60 r] by (simp add: n_def)
  have secs: "\<lfloor>js_rem r 60\<rfloor> = n mod 60"
    using js_rem_floor [of r 60] assms by (simp add: n_def)
  have small: "js_rem r 60 < 10 \<longleftrightarrow> n mod 60 < 10"
    using js_rem_less [of r 60 10] assms by (simp add: n_def)
  have m0: "0 \<le> n div 60"
    using n0 by (simp add: pos_imp_zdiv_nonneg_iff)
  have "getTimeDisplay (Finite r) =
      intToString (n div 60) @ '':'' @ ((if n mod 60 < 10 then ''0'' else []) @ intToString (n mod 60))"
    using assms by (simp add: getTimeDisplay_def Let_def minutes secs small)
  also have "(if n mod 60 < 10 then ''0'' else []) @ intToString (n mod 60) = twoDigits (nat (n mod 60))"
    by (rule padded_seconds) simp_all
  also have "intToString (n div 60) = natToString (nat (n div 60))"
    using m0 by (simp add: intToString_def)
  finally show ?thesis
    using n0 by (simp add: n_def nat_div_distrib nat_mod_distrib)
qed

lemma getTimeDisplay_hours:
  assumes "3600 \<le> r"
  shows "getTimeDisplay (Finite r) =
           natToString (nat \<lfloor>r\<rfloor> div 3600) @ '':''
           @ twoDigits (nat \<lfloor>r\<rfloor> mod 3600 div 60) @ '':''
           @ twoDigits (nat \<lfloor>r\<rfloor> mod 60)"
proof -
  define n where "n = \<lfloor>r\<rfloor>"
  define r1 where "r1 = js_rem r 3600"
  have r0: "0 \<le> r"
    using assms by simp
  have n0: "0 \<le> n"
    using r0 by (simp add: n_def)
  have hours: "\<lfloor>r / 3600\<rfloor> = n div 3600"
    using floor_divide_real_eq_div [of 3600 r] by (simp add: n_def)
  have r1_0: "0 \<le> r1"
    using js_rem_range [of r 3600] r0 by (simp add: r1_def)
  have r1_floor: "\<lfloor>r1\<rfloor> = n mod 3600"
    using js_rem_floor [of r 3600] r0 by (simp add: n_def r1_def)
  have minutes: "\<lfloor>r1 / 60\<rfloor> = n mod 3600 div 60"
    using floor_divide_real_eq_div [of 60 r1] by (simp add: r1_floor)
  have mod60: "n mod 3600 mod 60 = n mod 60"
    by (simp add: mod_mod_cancel)
  have secs: "\<lfloor>js_rem r1 60\<rfloor> = n mod 60"
    using js_rem_floor [of r1 60] r1_0 by (simp add: r1_floor mod60)
  have small: "js_rem r1 60 < 10 \<longleftrightarrow> n mod 60 < 10"
    using js_rem_less [of r1 60 10] r1_0 by (simp add: r1_floor mod60)
  have h0: "0 \<le> n div 3600"
    using n0 by (simp add: pos_imp_zdiv_nonneg_iff)
  have m_range: "0 \<le> n mod 3600 div 60" "n mod 3600 div 60 < 60"
  proof -
    have split: "n mod 3600 = 60 * (n mod 3600 div 60) + n mod 3600 mod 60"
      by simp
    have "0 \<le> n mod 3600 mod 60" and "n mod 3600 mod 60 < 60"
      and "0 \<le> n mod 3600" and "n mod 3600 < 3600"
      by simp_all
    then show "0 \<le> n mod 3600 div 60" and "n mod 3600 div 60 < 60"
      using split by linarith+
  qed
  have "getTimeDisplay (Finite r) =
      intToString (n div 3600) @ '':''
      @ ((if n mod 3600 div 60 < 10 then ''0'' else []) @ intToString (n mod 3600 div 60)) @ '':''
      @ ((if n mod 60 < 10 then ''0'' else []) @ intToString (n mod 60))"
    using assms
    by (simp add: getTimeDisplay_def Let_def hours minutes secs small r1_def [symmetric])
  also have "(if n mod 60 < 10 then ''0'' else []) @ intToString (n mod 60) = twoDigits (nat (n mod 60))"
    by (rule padded_seconds) simp_all
  also have "(if n mod 3600 div 60 < 10 then ''0'' else []) @ intToString (n mod 3600 div 60)
      = twoDigits (nat (n mod 3600 div 60))"
    using m_range by (rule padded_seconds)
  also have "intToString (n div 3600) = natToString (nat (n div 3600))"
    using h0 by (simp add: intToString_def)
  finally show ?thesis
    using n0 by (simp add: n_def nat_div_distrib nat_mod_distrib)
qed

text \<open>A negative argument is not a duration; the code formats it field by field.\<close>

lemma getTimeDisplay_negative: "getTimeDisplay (Finite (- 5)) = ''-1:0-5''"
proof -
  have "\<lceil>- (1 / 12) :: real\<rceil> = 0"
    by (rule ceiling_unique) simp_all
  then have rem: "js_rem (- 5) 60 = - 5"
    by (simp add: js_rem_def)
  show ?thesis
    by (simp add: getTimeDisplay_def Let_def rem intToString_def natToString_digit digitChar_def)
qed

text \<open>
  C9. Every non-finite duration should be shown as \<open>0:00\<close>, and the examples 0, 65 and
  3661 as \<open>0:00\<close>, \<open>1:05\<close> and \<open>1:01:01\<close>. The examples, NaN and -Infinity come out so
  (lemmas above). At +Infinity the code resets the remaining time to 0 but still enters the
  hours branch, because the guard tests the original argument: the result is
  \<open>Infinity:00:00\<close>.
\<close>

theorem getTimeDisplay_Infinity: "getTimeDisplay Infinity = ''Infinity:00:00''"
  by (simp add: getTimeDisplay_def js_rem_def intToString_def natToString_digit digitChar_def)

section \<open>Basic facts about the helpers\<close>

lemma notify_frame:
  "state (notify n p) = state p"
  "isAudio1Active (notify n p) = isAudio1Active p"
  "audio1 (notify n p) = audio1 p"
  "audio2 (notify n p) = audio2 p"
  "nonShuffledNextTracks (notify n p) = nonShuffledNextTracks p"
  "nextTracksShared (notify n p) = nextTracksShared p"
  "detached (notify n p) = detached p"
  "audioPlay (notify n p) = audioPlay p"
  "shuffle (notify n p) = shuffle p"
  "onTrackStart (notify n p) = onTrackStart p"
  "onTrackEnd (notify n p) = onTrackEnd p"
  "onStateChanged (notify n p) = onStateChanged p"
  "onError (notify n p) = onError p"
  "notifications (notify n p) = notifications p @ [n]"
  by (simp_all add: notify_def)

lemma triggerOnStateChange_frame:
  "state (triggerOnStateChange p) = state p"
  "isAudio1Active (triggerOnStateChange p) = isAudio1Active p"
  "audio1 (triggerOnStateChange p) = audio1 p"
  "audio2 (triggerOnStateChange p) = audio2 p"
  "nonShuffledNextTracks (triggerOnStateChange p) = nonShuffledNextTracks p"
  "nextTracksShared (triggerOnStateChange p) = nextTracksShared p"
  "detached (triggerOnStateChange p) = detached p"
  "audioPlay (triggerOnStateChange p) = audioPlay p"
  "shuffle (triggerOnStateChange p) = shuffle p"
  "onTrackStart (triggerOnStateChange p) = onTrackStart p"
  "onTrackEnd (triggerOnStateChange p) = onTrackEnd p"
  "onStateChanged (triggerOnStateChange p) = onStateChanged p"
  "onError (triggerOnStateChange p) = onError p"
  by (simp_all add: triggerOnStateChange_def notify_frame)

lemma triggerOnTrackStart_frame:
  "state (triggerOnTrackStart p) = state p"
  "isAudio1Active (triggerOnTrackStart p) = isAudio1Active p"
  "audio1 (triggerOnTrackStart p) = audio1 p"
  "audio2 (triggerOnTrackStart p) = audio2 p"
  "nonShuffledNextTracks (triggerOnTrackStart p) = nonShuffledNextTracks p"
  "nextTracksShared (triggerOnTrackStart p) = nextTracksShared p"
  "detached (triggerOnTrackStart p) = detached p"
  "audioPlay (triggerOnTrackStart p) = audioPlay p"
  "shuffle (triggerOnTrackStart p) = shuffle p"
  "onTrackStart (triggerOnTrackStart p) = onTrackStart p"
  "onTrackEnd (triggerOnTrackStart p) = onTrackEnd p"
  "onStateChanged (triggerOnTrackStart p) = onStateChanged p"
  "onError (triggerOnTrackStart p) = onError p"
  by (simp_all add: triggerOnTrackStart_def notify_frame split: option.splits)

lemma triggerOnTrackEnd_frame:
  "state (triggerOnTrackEnd t p) = state p"
  "isAudio1Active (triggerOnTrackEnd t p) = isAudio1Active p"
  "audio1 (triggerOnTrackEnd t p) = audio1 p"
  "audio2 (triggerOnTrackEnd t p) = audio2 p"
  "nonShuffledNextTracks (triggerOnTrackEnd t p) = nonShuffledNextTracks p"
  "nextTracksShared (triggerOnTrackEnd t p) = nextTracksShared p"
  "detached (triggerOnTrackEnd t p) = detached p"
  "audioPlay (triggerOnTrackEnd t p) = audioPlay p"
  "shuffle (triggerOnTrackEnd t p) = shuffle p"
  "onTrackStart (triggerOnTrackEnd t p) = onTrackStart p"
  "onTrackEnd (triggerOnTrackEnd t p) = onTrackEnd p"
  "onStateChanged (triggerOnTrackEnd t p) = onStateChanged p"
  "onError (triggerOnTrackEnd t p) = onError p"
  by (simp_all add: triggerOnTrackEnd_def notify_frame)

lemma catchError_frame:
  "state (catchError ex p) = state p"
  "isAudio1Active (catchError ex p) = isAudio1Active p"
  "audio1 (catchError ex p) = audio1 p"
  "audio2 (catchError ex p) = audio2 p"
  "nonShuffledNextTracks (catchError ex p) = nonShuffledNextTracks p"
  "nextTracksShared (catchError ex p) = nextTracksShared p"
  "detached (catchError ex p) = detached p"
  "audioPlay (catchError ex p) = audioPlay p"
  "shuffle (catchError ex p) = shuffle p"
  "onTrackStart (catchError ex p) = onTrackStart p"
  "onTrackEnd (catchError ex p) = onTrackEnd p"
  "onStateChanged (catchError ex p) = onStateChanged p"
  "onError (catchError ex p) = onError p"
  by (simp_all add: catchError_def notify_frame)

lemma setSlot_frame:
  "state (setSlot one a p) = state p"
  "isAudio1Active (setSlot one a p) = isAudio1Active p"
  "nonShuffledNextTracks (setSlot one a p) = nonShuffledNextTracks p"
  "nextTracksShared (setSlot one a p) = nextTracksShared p"
  "detached (setSlot one a p) = detached p"
  "notifications (setSlot one a p) = notifications p"
  "audioPlay (setSlot one a p) = audioPlay p"
  "shuffle (setSlot one a p) = shuffle p"
  "onTrackStart (setSlot one a p) = onTrackStart p"
  "onTrackEnd (setSlot one a p) = onTrackEnd p"
  "onStateChanged (setSlot one a p) = onStateChanged p"
  "onError (setSlot one a p) = onError p"
  "audioSlot b (setSlot one a p) = (if b = one then a else audioSlot b p)"
  by (auto simp add: setSlot_def audioSlot_def)

lemma updSlot_frame:
  "state (updSlot one f p) = state p"
  "isAudio1Active (updSlot one f p) = isAudio1Active p"
  "nonShuffledNextTracks (updSlot one f p) = nonShuffledNextTracks p"
  "nextTracksShared (updSlot one f p) = nextTracksShared p"
  "detached (updSlot one f p) = detached p"
  "notifications (updSlot one f p) = notifications p"
  "audioPlay (updSlot one f p) = audioPlay p"
  "shuffle (updSlot one f p) = shuffle p"
  "onTrackStart (updSlot one f p) = onTrackStart p"
  "onTrackEnd (updSlot one f p) = onTrackEnd p"
  "onStateChanged (updSlot one f p) = onStateChanged p"
  "onError (updSlot one f p) = onError p"
  "audioSlot b (updSlot one f p) = (if b = one then map_option f (audioSlot b p) else audioSlot b p)"
  by (auto simp add: updSlot_def setSlot_frame)

lemma audioSlot_cong_fields:
  "audioSlot b (p\<lparr>state := s\<rparr>) = audioSlot b p"
  "audioSlot b (p\<lparr>detached := d\<rparr>) = audioSlot b p"
  "audioSlot b (p\<lparr>notifications := ns\<rparr>) = audioSlot b p"
  "audioSlot b (p\<lparr>isAudio1Active := act\<rparr>) = audioSlot b p"
  "audioSlot b (p\<lparr>nextTracksShared := sh\<rparr>) = audioSlot b p"
  "audioSlot b (p\<lparr>nonShuffledNextTracks := ts\<rparr>) = audioSlot b p"
  by (simp_all add: audioSlot_def)

lemma releaseSlot_frame:
  "state (releaseSlot one p) = state p"
  "isAudio1Active (releaseSlot one p) = isAudio1Active p"
  "nonShuffledNextTracks (releaseSlot one p) = nonShuffledNextTracks p"
  "nextTracksShared (releaseSlot one p) = nextTracksShared p"
  "notifications (releaseSlot one p) = notifications p"
  "audioPlay (releaseSlot one p) = audioPlay p"
  "shuffle (releaseSlot one p) = shuffle p"
  "onTrackStart (releaseSlot one p) = onTrackStart p"
  "onTrackEnd (releaseSlot one p) = onTrackEnd p"
  "onStateChanged (releaseSlot one p) = onStateChanged p"
  "onError (releaseSlot one p) = onError p"
  "audioSlot b (releaseSlot one p) = (if b = one then None else audioSlot b p)"
  "detached (releaseSlot one p) = detached p @ (case audioSlot one p of None \<Rightarrow> [] | Some a \<Rightarrow> [a])"
  by (auto simp add: releaseSlot_def setSlot_frame audioSlot_cong_fields split: option.splits)

lemma audioSlot_notify:
  "audioSlot b (notify n p) = audioSlot b p"
  "audioSlot b (triggerOnStateChange p) = audioSlot b p"
  "audioSlot b (triggerOnTrackStart p) = audioSlot b p"
  "audioSlot b (triggerOnTrackEnd t p) = audioSlot b p"
  "audioSlot b (catchError ex p) = audioSlot b p"
  by (simp_all add: audioSlot_def notify_frame triggerOnStateChange_frame
      triggerOnTrackStart_frame triggerOnTrackEnd_frame catchError_frame)

lemma activeAudioElement_slot: "activeAudioElement p = audioSlot (isAudio1Active p) p"
  by (simp add: activeAudioElement_def audioSlot_def)

lemma startTrack_state: "state (startTrack m t p) = (state p)\<lparr>currentTrack := Some t\<rparr>"
  by (simp add: startTrack_def Let_def triggerOnTrackStart_frame releaseSlot_frame
      updSlot_frame setSlot_frame)

lemma startTrack_active: "activeAudioElement (startTrack m t p) \<noteq> None"
  by (simp add: startTrack_def Let_def activeAudioElement_slot triggerOnTrackStart_frame
      releaseSlot_frame updSlot_frame setSlot_frame audioSlot_notify audioSlot_cong_fields)

lemma play_active:
  "activeAudioElement p = Some a \<Longrightarrow>
   play p = (case audioPlay p a of
               None \<Rightarrow> triggerOnStateChange
                 ((updSlot (isAudio1Active p) (\<lambda>a. a\<lparr>paused := False\<rparr>) p)
                    \<lparr>state := (state p)\<lparr>isPaused := False\<rparr>\<rparr>)
             | Some ex \<Rightarrow> catchError ex p)"
  by (simp add: play.simps)

lemma play_active_state:
  "activeAudioElement p = Some a \<Longrightarrow>
   state (play p) = (case audioPlay p a of None \<Rightarrow> (state p)\<lparr>isPaused := False\<rparr> | Some ex \<Rightarrow> state p)"
  by (simp add: play_active triggerOnStateChange_frame catchError_frame split: option.splits)

section \<open>Advancing the queue\<close>

lemma pushPrevious_state:
  "state (pushPrevious n p) =
     (case currentTrack (state p) of
        None \<Rightarrow> state p
      | Some c \<Rightarrow>
          if (case n of None \<Rightarrow> True | Some t \<Rightarrow> id_t c \<noteq> id_t t)
          then (state p)\<lparr>previousTracks := c # previousTracks (state p)\<rparr>
          else state p)"
  by (simp add: pushPrevious_def triggerOnTrackEnd_frame split: option.splits)

lemma play_startTrack_state:
  "\<exists>b. state (play (startTrack m t p)) = (state p)\<lparr>currentTrack := Some t, isPaused := b\<rparr>"
proof -
  obtain a where a: "activeAudioElement (startTrack m t p) = Some a"
    using startTrack_active [of m t p] by blast
  show ?thesis
  proof (cases "audioPlay (startTrack m t p) a")
    case None
    then have "state (play (startTrack m t p)) = (state p)\<lparr>currentTrack := Some t, isPaused := False\<rparr>"
      using a by (simp add: play_active_state startTrack_state)
    then show ?thesis by blast
  next
    case (Some ex)
    then have "state (play (startTrack m t p)) = (state p)\<lparr>currentTrack := Some t, isPaused := isPaused (state p)\<rparr>"
      using a by (simp add: play_active_state startTrack_state)
    then show ?thesis by blast
  qed
qed

lemma play_startTrack_tracks:
  "currentTrack (state (play (startTrack m t p))) = Some t"
  "previousTracks (state (play (startTrack m t p))) = previousTracks (state p)"
  "nextTracks (state (play (startTrack m t p))) = nextTracks (state p)"
  "priorityTracks (state (play (startTrack m t p))) = priorityTracks (state p)"
  using play_startTrack_state [of m t p] by auto

lemma playNextTrack_manual:
  "playNextTrack (Some t) p = play (startTrack (Some t) t (pushPrevious (Some t) p))"
  by (simp add: playNextTrack.simps takeNextTrack_def)

lemma takeNextTrack_frame:
  "isAudio1Active (snd (takeNextTrack m p)) = isAudio1Active p"
  "audioSlot b (snd (takeNextTrack m p)) = audioSlot b p"
  "detached (snd (takeNextTrack m p)) = detached p"
  "notifications (snd (takeNextTrack m p)) = notifications p"
  "audioPlay (snd (takeNextTrack m p)) = audioPlay p"
  "onError (snd (takeNextTrack m p)) = onError p"
  "volume (state (snd (takeNextTrack m p))) = volume (state p)"
  "currentTrack (state (snd (takeNextTrack m p))) = currentTrack (state p)"
  "previousTracks (state (snd (takeNextTrack m p))) = previousTracks (state p)"
  by (simp_all add: takeNextTrack_def Let_def audioSlot_def split: option.splits list.splits)

lemma pushPrevious_frame:
  "isAudio1Active (pushPrevious n p) = isAudio1Active p"
  "audioSlot b (pushPrevious n p) = audioSlot b p"
  "detached (pushPrevious n p) = detached p"
  "audioPlay (pushPrevious n p) = audioPlay p"
  "onError (pushPrevious n p) = onError p"
  "volume (state (pushPrevious n p)) = volume (state p)"
  by (simp_all add: pushPrevious_def triggerOnTrackEnd_frame audioSlot_notify
      audioSlot_cong_fields split: option.splits)

lemma startTrack_flag: "isAudio1Active (startTrack m t p) = (\<not> isAudio1Active p)"
  by (simp add: startTrack_def Let_def triggerOnTrackStart_frame releaseSlot_frame
      updSlot_frame setSlot_frame)

lemma startTrack_audioPlay: "audioPlay (startTrack m t p) = audioPlay p"
  by (simp add: startTrack_def Let_def triggerOnTrackStart_frame releaseSlot_frame
      updSlot_frame setSlot_frame)

lemma startTrack_element:
  "activeAudioElement (startTrack m t p) =
     Some ((case audioSlot (\<not> isAudio1Active p) p of None \<Rightarrow> newAudio | Some a \<Rightarrow> a)
       \<lparr>onerror := (if onError p
                     \<and> onerror (case audioSlot (\<not> isAudio1Active p) p of
                                  None \<Rightarrow> newAudio | Some a \<Rightarrow> a) = None
                    then Some (LoadError t)
                    else onerror (case audioSlot (\<not> isAudio1Active p) p of
                                    None \<Rightarrow> newAudio | Some a \<Rightarrow> a)),
         oncanplaythrough := Some BufferNextTrack,
         onprogress := Some PlayerProgress,
         onended := Some PlayerTrackEnd,
         volume_el := volume (state p),
         src := url t,
         currentTime := 0\<rparr>)"
  by (cases "audioSlot (\<not> isAudio1Active p) p")
    (simp_all add: startTrack_def Let_def activeAudioElement_slot triggerOnTrackStart_frame
      releaseSlot_frame updSlot_frame setSlot_frame audioSlot_notify audioSlot_cong_fields)

lemma startTrack_detached:
  "detached (startTrack m t p) =
     detached p @ (if m = None
                   then (case audioSlot (isAudio1Active p) p of
                           None \<Rightarrow> [] | Some a \<Rightarrow> [clearCallbacks a])
                   else [])"
  by (cases "audioSlot (isAudio1Active p) p")
    (simp_all add: startTrack_def Let_def triggerOnTrackStart_frame
      releaseSlot_frame updSlot_frame setSlot_frame audioSlot_notify audioSlot_cong_fields)

lemma play_active_frame:
  assumes "activeAudioElement r = Some a"
  shows "detached (play r) = detached r"
    and "isAudio1Active (play r) = isAudio1Active r"
    and "activeAudioElement (play r) =
           Some (if audioPlay r a = None then a\<lparr>paused := False\<rparr> else a)"
  using assms
  by (simp_all add: play_active activeAudioElement_slot triggerOnStateChange_frame
      catchError_frame updSlot_frame audioSlot_notify audioSlot_cong_fields
      split: option.splits)

lemma playNextTrack_started:
  assumes "fst (takeNextTrack m p) = Some t"
  shows "playNextTrack m p =
           play (startTrack m t (pushPrevious (Some t) (snd (takeNextTrack m p))))"
  using assms by (cases "takeNextTrack m p") (simp add: playNextTrack.simps)

lemma playNextTrack_activation:
  assumes "fst (takeNextTrack m p) = Some t"
  shows "isAudio1Active (playNextTrack m p) = (\<not> isAudio1Active p)"
    and "map_option volume_el (activeAudioElement (playNextTrack m p)) = Some (volume (state p))"
    and "map_option src (activeAudioElement (playNextTrack m p)) = Some (url t)"
    and "map_option currentTime (activeAudioElement (playNextTrack m p)) = Some 0"
    and "map_option onended (activeAudioElement (playNextTrack m p)) = Some (Some PlayerTrackEnd)"
proof -
  define q where "q = startTrack m t (pushPrevious (Some t) (snd (takeNextTrack m p)))"
  have run: "playNextTrack m p = play q"
    using assms by (simp add: playNextTrack_started q_def)
  obtain a where a: "activeAudioElement q = Some a"
    and vol: "volume_el a = volume (state p)" and "src a = url t" and "currentTime a = 0"
    and "onended a = Some PlayerTrackEnd"
    by (simp add: q_def startTrack_element pushPrevious_frame takeNextTrack_frame)
  have flag: "isAudio1Active q = (\<not> isAudio1Active p)"
    by (simp add: q_def startTrack_flag pushPrevious_frame takeNextTrack_frame)
  show "isAudio1Active (playNextTrack m p) = (\<not> isAudio1Active p)"
    using play_active_frame(2) [OF a] flag by (simp add: run)
  show "map_option volume_el (activeAudioElement (playNextTrack m p)) = Some (volume (state p))"
    using play_active_frame(3) [OF a] vol by (simp add: run)
  show "map_option src (activeAudioElement (playNextTrack m p)) = Some (url t)"
    using play_active_frame(3) [OF a] \<open>src a = url t\<close> by (simp add: run)
  show "map_option currentTime (activeAudioElement (playNextTrack m p)) = Some 0"
    using play_active_frame(3) [OF a] \<open>currentTime a = 0\<close> by (simp add: run)
  show "map_option onended (activeAudioElement (playNextTrack m p)) = Some (Some PlayerTrackEnd)"
    using play_active_frame(3) [OF a] \<open>onended a = Some PlayerTrackEnd\<close> by (simp add: run)
qed

lemma playNextTrack_detached:
  "detached (playNextTrack m p) =
     detached p @ (if m = None \<and> fst (takeNextTrack m p) \<noteq> None
                   then (case audioSlot (isAudio1Active p) p of
                           None \<Rightarrow> [] | Some a \<Rightarrow> [clearCallbacks a])
                   else [])"
proof (cases "fst (takeNextTrack m p)")
  case None
  then have "playNextTrack m p =
      (let p2 = pushPrevious None (snd (takeNextTrack m p))
       in if currentTrack (state p2) \<noteq> None
          then triggerOnStateChange (p2\<lparr>state := (state p2)\<lparr>currentTrack := None\<rparr>\<rparr>)
          else p2)"
    by (cases "takeNextTrack m p") (simp add: playNextTrack.simps)
  then show ?thesis
    using None
    by (simp add: Let_def triggerOnStateChange_frame pushPrevious_frame takeNextTrack_frame)
next
  case (Some t)
  define q where "q = startTrack m t (pushPrevious (Some t) (snd (takeNextTrack m p)))"
  have run: "playNextTrack m p = play q"
    using Some by (simp add: playNextTrack_started q_def)
  obtain a where a: "activeAudioElement q = Some a"
    by (simp add: q_def startTrack_element)
  have "detached (play q) = detached q"
    using play_active_frame(1) [OF a] .
  then show ?thesis
    using Some
    by (simp add: run q_def startTrack_detached pushPrevious_frame takeNextTrack_frame)
qed

lemma playNextTrack_from_idle:
  assumes "currentTrack (state q) = None" and "priorityTracks (state q) = []"
  shows "previousTracks (state (playNextTrack None q)) = previousTracks (state q)"
    and "currentTrack (state (playNextTrack None q)) =
           (case nextTracks (state q) of [] \<Rightarrow> None | t # rest \<Rightarrow> Some t)"
    and "nextTracks (state (playNextTrack None q)) = tl (nextTracks (state q))"
proof -
  show "previousTracks (state (playNextTrack None q)) = previousTracks (state q)"
    using assms
    by (cases "nextTracks (state q)")
      (simp_all add: playNextTrack.simps takeNextTrack_def Let_def play_startTrack_tracks
        pushPrevious_state)
  show "currentTrack (state (playNextTrack None q)) =
           (case nextTracks (state q) of [] \<Rightarrow> None | t # rest \<Rightarrow> Some t)"
    using assms
    by (cases "nextTracks (state q)")
      (simp_all add: playNextTrack.simps takeNextTrack_def Let_def play_startTrack_tracks
        pushPrevious_state)
  show "nextTracks (state (playNextTrack None q)) = tl (nextTracks (state q))"
    using assms
    by (cases "nextTracks (state q)")
      (simp_all add: playNextTrack.simps takeNextTrack_def Let_def play_startTrack_tracks
        pushPrevious_state)
qed

lemma playNextTrack_same_track:
  assumes "currentTrack (state q) = Some c"
  shows "previousTracks (state (playNextTrack (Some c) q)) = previousTracks (state q)"
    and "currentTrack (state (playNextTrack (Some c) q)) = Some c"
    and "nextTracks (state (playNextTrack (Some c) q)) = nextTracks (state q)"
  using assms
  by (simp_all add: playNextTrack_manual play_startTrack_tracks pushPrevious_state)

section \<open>Loading a track list\<close>

lemma playTracks_as_playNextTrack:
  "\<exists>q. playTracks tracks playIndex p = playNextTrack (currentTrack (state p)) q
     \<and> state q = (state p)\<lparr>priorityTracks := [],
          previousTracks := (if 0 < playIndex \<and> playIndex < int (length tracks)
                             then slice tracks 0 (playIndex - 1) else []),
          nextTracks := sliceFrom tracks playIndex\<rparr>"
proof -
  define q where "q = (let p1 = updSlot (isAudio1Active p) (\<lambda>audio. audio\<lparr>paused := True\<rparr>) p;
          p2 = releaseSlot True p1;
          p3 = releaseSlot False p2;
          p4 = p3\<lparr>isAudio1Active := True\<rparr>;
          p5 = p4\<lparr>state := (state p4)\<lparr>priorityTracks := []\<rparr>\<rparr>;
          p6 = (if 0 < playIndex \<and> playIndex < int (length tracks)
                then p5\<lparr>state := (state p5)\<lparr>previousTracks := slice tracks 0 (playIndex - 1)\<rparr>\<rparr>
                else p5\<lparr>state := (state p5)\<lparr>previousTracks := []\<rparr>\<rparr>)
      in p6\<lparr>state := (state p6)\<lparr>nextTracks := sliceFrom tracks playIndex\<rparr>,
                  nextTracksShared := False\<rparr>)"
  have st: "state q = (state p)\<lparr>priorityTracks := [],
          previousTracks := (if 0 < playIndex \<and> playIndex < int (length tracks)
                             then slice tracks 0 (playIndex - 1) else []),
          nextTracks := sliceFrom tracks playIndex\<rparr>"
    by (simp add: q_def Let_def releaseSlot_frame updSlot_frame)
  have "audioSlot True q = None"
    by (simp add: q_def Let_def releaseSlot_frame audioSlot_cong_fields)
  moreover have "isAudio1Active q"
    by (simp add: q_def Let_def)
  ultimately have idle: "activeAudioElement q = None"
    by (simp add: activeAudioElement_slot)
  have "playTracks tracks playIndex p = play q"
    by (simp add: playTracks_def q_def Let_def)
  also have "\<dots> = playNextTrack (currentTrack (state q)) q"
    using idle by (simp add: play.simps)
  also have "currentTrack (state q) = currentTrack (state p)"
    by (simp add: st)
  finally show ?thesis using st by blast
qed

lemma sliceFrom_cases:
  "sliceFrom xs i =
     (if i \<le> - int (length xs) \<or> i = 0 then xs
      else if i < 0 then drop (nat (int (length xs) + i)) xs
      else if int (length xs) \<le> i then []
      else drop (nat i) xs)"
  by (auto simp add: sliceFrom_def relativeIndex_def max_def min_def)

lemma playTracks_valid_index:
  assumes "0 < playIndex" and "playIndex < int (length tracks)"
    and "currentTrack (state p) = None"
  shows "previousTracks (state (playTracks tracks playIndex p)) = take (nat playIndex - 1) tracks"
    and "currentTrack (state (playTracks tracks playIndex p)) = Some (tracks ! nat playIndex)"
    and "nextTracks (state (playTracks tracks playIndex p)) = drop (Suc (nat playIndex)) tracks"
proof -
  obtain q where run: "playTracks tracks playIndex p = playNextTrack (currentTrack (state p)) q"
    and st: "state q = (state p)\<lparr>priorityTracks := [],
          previousTracks := (if 0 < playIndex \<and> playIndex < int (length tracks)
                             then slice tracks 0 (playIndex - 1) else []),
          nextTracks := sliceFrom tracks playIndex\<rparr>"
    using playTracks_as_playNextTrack [of tracks playIndex p] by blast
  have idle: "currentTrack (state q) = None" "priorityTracks (state q) = []"
    using assms by (simp_all add: st)
  have prev: "previousTracks (state q) = take (nat playIndex - 1) tracks"
    using assms by (auto simp add: st slice_def relativeIndex_def Let_def min_def nat_diff_distrib')
  have nxt: "nextTracks (state q) = drop (nat playIndex) tracks"
    using assms by (auto simp add: st sliceFrom_cases)
  have len: "nat playIndex < length tracks"
    using assms by linarith
  have split: "drop (nat playIndex) tracks = tracks ! nat playIndex # drop (Suc (nat playIndex)) tracks"
    using len by (simp add: Cons_nth_drop_Suc)
  show "previousTracks (state (playTracks tracks playIndex p)) = take (nat playIndex - 1) tracks"
    using playNextTrack_from_idle(1) [OF idle] prev assms(3) by (simp add: run)
  show "currentTrack (state (playTracks tracks playIndex p)) = Some (tracks ! nat playIndex)"
    using playNextTrack_from_idle(2) [OF idle] nxt split assms(3) by (simp add: run)
  show "nextTracks (state (playTracks tracks playIndex p)) = drop (Suc (nat playIndex)) tracks"
    using playNextTrack_from_idle(3) [OF idle] nxt split assms(3) by (simp add: run)
qed

lemma playTracks_detached:
  "detached (playTracks tracks playIndex p) =
     detached p
     @ (case audio1 p of None \<Rightarrow> []
        | Some a \<Rightarrow> [if isAudio1Active p then a\<lparr>paused := True\<rparr> else a])
     @ (case audio2 p of None \<Rightarrow> []
        | Some a \<Rightarrow> [if isAudio1Active p then a else a\<lparr>paused := True\<rparr>])"
proof -
  define p1 where "p1 = updSlot (isAudio1Active p) (\<lambda>audio. audio\<lparr>paused := True\<rparr>) p"
  define p3 where "p3 = releaseSlot False (releaseSlot True p1)"
  define q where "q = (let p4 = p3\<lparr>isAudio1Active := True\<rparr>;
          p5 = p4\<lparr>state := (state p4)\<lparr>priorityTracks := []\<rparr>\<rparr>;
          p6 = (if 0 < playIndex \<and> playIndex < int (length tracks)
                then p5\<lparr>state := (state p5)\<lparr>previousTracks := slice tracks 0 (playIndex - 1)\<rparr>\<rparr>
                else p5\<lparr>state := (state p5)\<lparr>previousTracks := []\<rparr>\<rparr>)
      in p6\<lparr>state := (state p6)\<lparr>nextTracks := sliceFrom tracks playIndex\<rparr>,
                  nextTracksShared := False\<rparr>)"
  have s1: "audioSlot True p1 =
      map_option (\<lambda>a. if isAudio1Active p then a\<lparr>paused := True\<rparr> else a) (audio1 p)"
    unfolding p1_def updSlot_frame
    by (cases "audio1 p"; cases "isAudio1Active p"; simp add: audioSlot_def)
  have s2: "audioSlot False p1 =
      map_option (\<lambda>a. if isAudio1Active p then a else a\<lparr>paused := True\<rparr>) (audio2 p)"
    unfolding p1_def updSlot_frame
    by (cases "audio2 p"; cases "isAudio1Active p"; simp add: audioSlot_def)
  have d3: "detached p3 = detached p
      @ (case audioSlot True p1 of None \<Rightarrow> [] | Some a \<Rightarrow> [a])
      @ (case audioSlot False p1 of None \<Rightarrow> [] | Some a \<Rightarrow> [a])"
    by (simp add: p3_def releaseSlot_frame) (simp add: p1_def updSlot_frame)
  have det: "detached q = detached p
     @ (case audio1 p of None \<Rightarrow> []
        | Some a \<Rightarrow> [if isAudio1Active p then a\<lparr>paused := True\<rparr> else a])
     @ (case audio2 p of None \<Rightarrow> []
        | Some a \<Rightarrow> [if isAudio1Active p then a else a\<lparr>paused := True\<rparr>])"
  proof -
    have "detached q = detached p3"
      by (simp add: q_def Let_def)
    then show ?thesis
      unfolding d3 s1 s2 by (cases "audio1 p"; cases "audio2 p") simp_all
  qed
  have slots: "audioSlot True q = None" "audioSlot False q = None"
    by (simp_all add: q_def p3_def Let_def releaseSlot_frame audioSlot_cong_fields)
  have flag: "isAudio1Active q"
    by (simp add: q_def Let_def)
  have idle: "activeAudioElement q = None"
    using slots flag by (simp add: activeAudioElement_slot)
  have "playTracks tracks playIndex p = play q"
    by (simp add: playTracks_def q_def p3_def p1_def Let_def)
  also have "\<dots> = playNextTrack (currentTrack (state q)) q"
    using idle by (simp add: play.simps)
  finally have "detached (playTracks tracks playIndex p)
      = detached (playNextTrack (currentTrack (state q)) q)"
    by simp
  also have "\<dots> = detached q"
    using slots flag by (simp add: playNextTrack_detached)
  finally show ?thesis using det by simp
qed

lemmas run_defs = playTracks_def play.simps playNextTrack.simps takeNextTrack_def pushPrevious_def
  startTrack_def updSlot_def setSlot_def audioSlot_def releaseSlot_def activeAudioElement_def
  triggerOnStateChange_def triggerOnTrackStart_def triggerOnTrackEnd_def notify_def catchError_def
  newPlayer_def player0_def slice_def sliceFrom_def relativeIndex_def newAudio_def Let_def
  clearCallbacks_def

lemma playTracks_player0:
  "playTracks (t # rest) 0 player0 =
     \<lparr> state = \<lparr> volume = 100, isPaused = False, position = 0, repeatMode = noRepeat,
           isShuffled = False, currentTrack = Some t, priorityTracks = [], nextTracks = rest,
           previousTracks = [] \<rparr>,
       onTrackStart = True, onTrackEnd = True, onStateChanged = True, onError = True,
       shuffle = None, isAudio1Active = False, audio1 = None,
       audio2 = Some \<lparr> volume_el = 100, loop = False, currentTime = 0, src = url t,
           preload = [], paused = False, onerror = Some (LoadError t),
           oncanplaythrough = Some BufferNextTrack, onprogress = Some PlayerProgress,
           onended = Some PlayerTrackEnd \<rparr>,
       nonShuffledNextTracks = rest, nextTracksShared = True,
       notifications = [TrackStart t,
         StateChanged \<lparr> volume = 100, isPaused = False, position = 0, repeatMode = noRepeat,
           isShuffled = False, currentTrack = Some t, priorityTracks = [], nextTracks = rest,
           previousTracks = [] \<rparr>],
       detached = [], audioPlay = (\<lambda>_. None), mathRandom = (\<lambda>_. 0), randomCalls = 0 \<rparr>"
  by (simp add: run_defs)

lemma playTracks_keeps_current:
  assumes "currentTrack (state p) = Some c"
  shows "currentTrack (state (playTracks tracks playIndex p)) = Some c"
    and "nextTracks (state (playTracks tracks playIndex p)) = sliceFrom tracks playIndex"
proof -
  obtain q where run: "playTracks tracks playIndex p = playNextTrack (currentTrack (state p)) q"
    and st: "state q = (state p)\<lparr>priorityTracks := [],
          previousTracks := (if 0 < playIndex \<and> playIndex < int (length tracks)
                             then slice tracks 0 (playIndex - 1) else []),
          nextTracks := sliceFrom tracks playIndex\<rparr>"
    using playTracks_as_playNextTrack [of tracks playIndex p] by blast
  have cur: "currentTrack (state q) = Some c"
    using assms by (simp add: st)
  show "currentTrack (state (playTracks tracks playIndex p)) = Some c"
    using playNextTrack_same_track(2) [OF cur] assms by (simp add: run)
  show "nextTracks (state (playTracks tracks playIndex p)) = sliceFrom tracks playIndex"
    using playNextTrack_same_track(3) [OF cur] assms by (simp add: run st)
qed


text \<open>
  C1. With \<open>0 < startIndex < length\<close> the history should be the tracks before the start
  index, and the track at the start index should become the current track whether or not
  one was current before. On a new player, \<^verbatim>\<open>playTracks([A, B, C], 2)\<close> leaves only
  \<open>A\<close> in the history: \<^verbatim>\<open>slice(0, playIndex - 1)\<close> drops \<open>B\<close>, the track just before
  the start index. On a player whose current track is \<open>A\<close>,
  \<^verbatim>\<open>playTracks([B, C], 1)\<close> plays \<open>A\<close> again and leaves \<open>C\<close> at the head of the
  queue, because \<^verbatim>\<open>play\<close> hands the old current track to \<^verbatim>\<open>playNextTrack\<close>.
\<close>

theorem playTracks_previous_off_by_one:
  "previousTracks (state (playTracks [trackA, trackB, trackC] 2 player0)) = [trackA]
   \<and> currentTrack (state (playTracks [trackA, trackB, trackC] 2 player0)) = Some trackC
   \<and> nextTracks (state (playTracks [trackA, trackB, trackC] 2 player0)) = []
   \<and> currentTrack (state (playTracks [trackB, trackC] 1 (playTracks [trackA] 0 player0)))
       = Some trackA
   \<and> nextTracks (state (playTracks [trackB, trackC] 1 (playTracks [trackA] 0 player0)))
       = [trackC]"
proof -
  have idle: "currentTrack (state player0) = None"
    by (simp add: player0_def newPlayer_def)
  have playing: "currentTrack (state (playTracks [trackA] 0 player0)) = Some trackA"
    by (simp add: playTracks_player0)
  show ?thesis
    using playTracks_valid_index [of 2 "[trackA, trackB, trackC]" player0, OF _ _ idle]
      playTracks_keeps_current [of "playTracks [trackA] 0 player0" trackA "[trackB, trackC]" 1,
        OF playing]
    by (simp add: sliceFrom_cases)
qed




text \<open>
  C2. A slot should only be set to null after the four handlers of its element have been
  cleared, as \<^verbatim>\<open>playNextTrack\<close> and \<^verbatim>\<open>bufferNextTrack\<close> do (\<open>playNextTrack_detached\<close>
  above). \<^verbatim>\<open>playTracks\<close> pauses the active element and sets both slots to null at once:
  the element that was playing \<open>A\<close> is let go with all four handlers still attached.
\<close>

theorem playTracks_releases_with_callbacks:
  "map (\<lambda>a. (onerror a, onprogress a, onended a, oncanplaythrough a))
       (detached (playTracks [trackB] 0 (playTracks [trackA] 0 player0)))
     = [(Some (LoadError trackA), Some PlayerProgress, Some PlayerTrackEnd,
         Some BufferNextTrack)]"
  by (simp add: playTracks_player0 playTracks_detached)

section \<open>The end of the queue\<close>

text \<open>
  C10. When \<^verbatim>\<open>playNextTrack\<close> is called without a track, both queues are empty and a
  track is current, that track is put at the front of the history, the track-end observer
  (if supplied) is called with it, and only then is the current track cleared and the
  state published (if that observer is supplied).
\<close>

theorem playNextTrack_exhausted:
  assumes "priorityTracks (state p) = []" and "nextTracks (state p) = []"
    and "currentTrack (state p) = Some c"
  shows "previousTracks (state (playNextTrack None p)) = c # previousTracks (state p)
       \<and> currentTrack (state (playNextTrack None p)) = None
       \<and> notifications (playNextTrack None p) =
           notifications p
           @ (if onTrackEnd p then [TrackEnd c] else [])
           @ (if onStateChanged p
              then [StateChanged ((state p)\<lparr>previousTracks := c # previousTracks (state p),
                                            currentTrack := None\<rparr>)]
              else [])"
  using assms
  by (simp add: playNextTrack.simps takeNextTrack_def pushPrevious_def triggerOnTrackEnd_def
      triggerOnStateChange_def notify_def)

theorem playNextTrack_exhausted_witness:
  "previousTracks (state (playNextTrack None (playTracks [trackA] 0 player0))) = [trackA]
   \<and> currentTrack (state (playNextTrack None (playTracks [trackA] 0 player0))) = None
   \<and> notifications (playNextTrack None (playTracks [trackA] 0 player0)) =
       notifications (playTracks [trackA] 0 player0)
       @ [TrackEnd trackA,
          StateChanged ((state (playTracks [trackA] 0 player0))
            \<lparr>previousTracks := [trackA], currentTrack := None\<rparr>)]"
  using playNextTrack_exhausted [of "playTracks [trackA] 0 player0" trackA]
  by (simp add: playTracks_player0)

section \<open>Going back\<close>





section \<open>Volume\<close>

lemma setVolume_scaled:
  "volume (state (setVolume pct p)) = pct
   \<and> audio1 (setVolume pct p) = map_option (\<lambda>a. a\<lparr>volume_el := pct / 100\<rparr>) (audio1 p)
   \<and> audio2 (setVolume pct p) = map_option (\<lambda>a. a\<lparr>volume_el := pct / 100\<rparr>) (audio2 p)"
  by (simp add: setVolume_def Let_def triggerOnStateChange_frame updSlot_def setSlot_def audioSlot_def)

lemma setVolume_frame:
  "state (setVolume pct p) = (state p)\<lparr>volume := pct\<rparr>"
  "isAudio1Active (setVolume pct p) = isAudio1Active p"
  "audioSlot b (setVolume pct p) = map_option (\<lambda>a. a\<lparr>volume_el := pct / 100\<rparr>) (audioSlot b p)"
  by (cases b; cases "audioSlot b p";
      simp add: setVolume_def Let_def triggerOnStateChange_frame updSlot_frame audioSlot_notify
        audioSlot_cong_fields)+

lemma bufferNextTrack_frame:
  "state (bufferNextTrack p) = state p"
  "isAudio1Active (bufferNextTrack p) = isAudio1Active p"
  "audioSlot (isAudio1Active p) (bufferNextTrack p) = audioSlot (isAudio1Active p) p"
  by (simp_all add: bufferNextTrack_def Let_def updSlot_frame setSlot_frame releaseSlot_frame
      split: option.splits)

lemma bufferNextTrack_standby:
  assumes "priorityTracks (state p) = []" and "nextTracks (state p) = t # rest"
  shows "map_option src (audioSlot (\<not> isAudio1Active p) (bufferNextTrack p)) = Some (url t)"
  using assms
  by (cases "audioSlot (\<not> isAudio1Active p) p")
    (simp_all add: bufferNextTrack_def Let_def updSlot_frame setSlot_frame releaseSlot_frame)

text \<open>
  C5. \<^verbatim>\<open>setVolume\<close> stores the percentage and gives every element the percentage
  divided by 100 (\<open>setVolume_scaled\<close>). The activation of an element in
  \<^verbatim>\<open>playNextTrack\<close> then assigns the stored percentage itself
  (\<open>playNextTrack_activation\<close>). With \<open>A\<close> playing and \<open>B\<close> buffered,
  \<^verbatim>\<open>setVolume(50)\<close> sets the standby element to 0.5; when \<open>A\<close> ends, that element
  becomes active with volume 50.
\<close>

theorem activation_assigns_raw_volume:
  "map_option volume_el
     (audioSlot True (setVolume 50 (bufferNextTrack (playTracks [trackA, trackB] 0 player0))))
     = Some (1 / 2)
   \<and> isAudio1Active
       (onPlayerTrackEnd (setVolume 50 (bufferNextTrack (playTracks [trackA, trackB] 0 player0))))
   \<and> map_option volume_el
       (audioSlot True
         (onPlayerTrackEnd (setVolume 50 (bufferNextTrack (playTracks [trackA, trackB] 0 player0)))))
     = Some 50"
proof -
  define P where "P = playTracks [trackA, trackB] 0 player0"
  define Q where "Q = setVolume 50 (bufferNextTrack P)"
  have P_flag: "\<not> isAudio1Active P"
    and P_state: "priorityTracks (state P) = []" "nextTracks (state P) = [trackB]"
      "repeatMode (state P) = noRepeat"
    by (simp_all add: P_def playTracks_player0)
  have standby: "map_option src (audioSlot True (bufferNextTrack P)) = Some (url trackB)"
    using bufferNextTrack_standby [of P trackB "[]"] P_flag P_state by simp
  then obtain a where a: "audioSlot True (bufferNextTrack P) = Some a"
    by auto
  have Q_standby: "map_option volume_el (audioSlot True Q) = Some (1 / 2)"
    by (simp add: Q_def setVolume_frame a)
  have Q_flag: "\<not> isAudio1Active Q"
    using P_flag by (simp add: Q_def setVolume_frame bufferNextTrack_frame)
  have Q_state: "state Q = (state P)\<lparr>volume := 50\<rparr>"
    by (simp add: Q_def setVolume_frame bufferNextTrack_frame)
  have take: "fst (takeNextTrack None Q) = Some trackB"
    using P_state by (simp add: takeNextTrack_def Q_state Let_def)
  have ended: "onPlayerTrackEnd Q = playNextTrack None Q"
    using P_state by (simp add: onPlayerTrackEnd_def Q_state)
  have "isAudio1Active (onPlayerTrackEnd Q)"
    using playNextTrack_activation(1) [OF take] Q_flag by (simp add: ended)
  moreover have "map_option volume_el (activeAudioElement (onPlayerTrackEnd Q)) = Some 50"
    using playNextTrack_activation(2) [OF take] by (simp add: ended Q_state)
  ultimately show ?thesis
    using Q_standby by (simp add: activeAudioElement_slot Q_def P_def)
qed

section \<open>Repeat mode\<close>

lemma setRepeatMode_active:
  "activeAudioElement (setRepeatMode mode p) =
     map_option (\<lambda>audio. audio\<lparr>loop := (mode \<noteq> noRepeat)\<rparr>) (activeAudioElement p)"
  by (simp add: setRepeatMode_def Let_def triggerOnStateChange_frame updSlot_frame
      activeAudioElement_slot audioSlot_notify audioSlot_cong_fields)

text \<open>
  C7, counterexample. With the mode \<^verbatim>\<open>repeatFull\<close> the active element loops.
\<close>

theorem setRepeatMode_repeatFull_loops:
  "map_option loop (activeAudioElement (setRepeatMode repeatFull (playTracks [trackA] 0 player0)))
     = Some True"
  by (simp add: setRepeatMode_active) (simp add: playTracks_player0 activeAudioElement_def)

text \<open>
  C7, as amended. \<^verbatim>\<open>setRepeatMode\<close> stores the mode and sets the loop flag of the active
  element to true exactly when the mode is not \<^verbatim>\<open>noRepeat\<close>, that is for both
  \<^verbatim>\<open>repeatOnce\<close> and \<^verbatim>\<open>repeatFull\<close>; nothing else of the element changes, and the
  standby element is left alone.
\<close>

theorem setRepeatMode_loop:
  "repeatMode (state (setRepeatMode mode p)) = mode
   \<and> activeAudioElement (setRepeatMode mode p) =
       map_option (\<lambda>audio. audio\<lparr>loop := (mode \<noteq> noRepeat)\<rparr>) (activeAudioElement p)
   \<and> audioSlot (\<not> isAudio1Active p) (setRepeatMode mode p) = audioSlot (\<not> isAudio1Active p) p"
  by (simp add: setRepeatMode_def Let_def triggerOnStateChange_frame updSlot_frame
      activeAudioElement_slot audioSlot_notify audioSlot_cong_fields)

section \<open>Shuffle\<close>

lemma enableShuffle_shadow:
  "nonShuffledNextTracks (playerAfter (enableShuffle p)) = nonShuffledNextTracks p"
  by (simp add: enableShuffle_def Let_def triggerOnStateChange_frame split: option.splits sum.splits)

lemma disableShuffle_shadow:
  "nonShuffledNextTracks (disableShuffle p) = nonShuffledNextTracks p"
  by (simp add: disableShuffle_def triggerOnStateChange_frame)

lemma applyToggles_shadow:
  "nonShuffledNextTracks (applyToggles ts p) = nonShuffledNextTracks p"
proof (induction ts arbitrary: p)
  case Nil
  show ?case by simp
next
  case (Cons t ts)
  show ?case
    by (cases t) (simp_all add: Cons.IH enableShuffle_shadow disableShuffle_shadow)
qed

lemma applyToggles_shuffle:
  "shuffle (applyToggles ts p) = shuffle p"
proof (induction ts arbitrary: p)
  case Nil
  show ?case by simp
next
  case (Cons t ts)
  have e: "shuffle (playerAfter (enableShuffle p)) = shuffle p"
    by (simp add: enableShuffle_def Let_def triggerOnStateChange_frame split: option.splits sum.splits)
  have d: "shuffle (disableShuffle p) = shuffle p"
    by (simp add: disableShuffle_def triggerOnStateChange_frame)
  show ?case
    by (cases t) (simp_all add: Cons.IH e d)
qed

lemma disableShuffle_nextTracks:
  "nextTracks (state (disableShuffle p)) = nonShuffledNextTracks p"
  by (simp add: disableShuffle_def triggerOnStateChange_frame)

lemma enableShuffle_nextTracks:
  "nextTracks (state (playerAfter (enableShuffle p))) =
     (case shuffle p of
        None \<Rightarrow> defaultShuffle p (nonShuffledNextTracks p)
      | Some f \<Rightarrow>
          (case f (nonShuffledNextTracks p) ((state p)\<lparr>isShuffled := True\<rparr>) of
             Inr shuffled \<Rightarrow> shuffled
           | Inl ex \<Rightarrow> nextTracks (state p)))"
  by (simp add: enableShuffle_def Let_def triggerOnStateChange_frame defaultShuffle_def
      split: option.splits sum.splits)

text \<open>
  The toggles read and keep the shadow list: from a player whose shadow list equals its
  queue, every sequence of toggles ends with \<^verbatim>\<open>disableShuffle\<close> giving back that queue,
  and \<^verbatim>\<open>enableShuffle\<close> always hands the shadow list to the shuffle function.
\<close>

lemma toggles_restore_synced_shadow:
  assumes "nonShuffledNextTracks p = nextTracks (state p)"
  shows "nextTracks (state (disableShuffle (applyToggles ts p))) = nextTracks (state p)
       \<and> nonShuffledNextTracks (applyToggles ts p) = nextTracks (state p)
       \<and> nextTracks (state (playerAfter (enableShuffle (applyToggles ts p)))) =
           (case shuffle p of
              None \<Rightarrow> defaultShuffle (applyToggles ts p) (nextTracks (state p))
            | Some f \<Rightarrow>
                (case f (nextTracks (state p))
                        ((state (applyToggles ts p))\<lparr>isShuffled := True\<rparr>) of
                   Inr shuffled \<Rightarrow> shuffled
                 | Inl ex \<Rightarrow> nextTracks (state (applyToggles ts p))))"
  using assms
  by (simp add: disableShuffle_nextTracks enableShuffle_nextTracks applyToggles_shadow
      applyToggles_shuffle split: option.splits sum.splits)

text \<open>
  The shadow list is written in one place only, the pop from the queue in
  \<^verbatim>\<open>playNextTrack\<close> (lines 386-392). \<^verbatim>\<open>playTracks\<close> on a player that has a current
  track replaces the queue and leaves the shadow list as it was.
\<close>

lemma startTrack_shadow:
  "nonShuffledNextTracks (startTrack m t p) = nonShuffledNextTracks p"
  "shuffle (startTrack m t p) = shuffle p"
  by (simp_all add: startTrack_def Let_def triggerOnTrackStart_frame releaseSlot_frame
      updSlot_frame setSlot_frame)

lemma pushPrevious_shadow:
  "nonShuffledNextTracks (pushPrevious n p) = nonShuffledNextTracks p"
  "shuffle (pushPrevious n p) = shuffle p"
  "isShuffled (state (pushPrevious n p)) = isShuffled (state p)"
  by (simp_all add: pushPrevious_def triggerOnTrackEnd_frame split: option.splits)

lemma play_active_shadow:
  assumes "activeAudioElement r = Some a"
  shows "nonShuffledNextTracks (play r) = nonShuffledNextTracks r"
    and "shuffle (play r) = shuffle r"
  using assms
  by (simp_all add: play_active triggerOnStateChange_frame catchError_frame updSlot_frame
      split: option.splits)

lemma playNextTrack_manual_shadow:
  "nonShuffledNextTracks (playNextTrack (Some t) p) = nonShuffledNextTracks p"
  "shuffle (playNextTrack (Some t) p) = shuffle p"
  "isShuffled (state (playNextTrack (Some t) p)) = isShuffled (state p)"
proof -
  define q where "q = pushPrevious (Some t) p"
  obtain a where a: "activeAudioElement (startTrack (Some t) t q) = Some a"
    by (simp add: startTrack_element)
  have run: "playNextTrack (Some t) p = play (startTrack (Some t) t q)"
    by (simp add: playNextTrack_manual q_def)
  show "nonShuffledNextTracks (playNextTrack (Some t) p) = nonShuffledNextTracks p"
    using play_active_shadow(1) [OF a]
    by (simp add: run startTrack_shadow q_def pushPrevious_shadow)
  show "shuffle (playNextTrack (Some t) p) = shuffle p"
    using play_active_shadow(2) [OF a]
    by (simp add: run startTrack_shadow q_def pushPrevious_shadow)
  obtain b where "state (play (startTrack (Some t) t q))
      = (state q)\<lparr>currentTrack := Some t, isPaused := b\<rparr>"
    using play_startTrack_state [of "Some t" t q] by blast
  then show "isShuffled (state (playNextTrack (Some t) p)) = isShuffled (state p)"
    by (simp add: run q_def pushPrevious_shadow)
qed

lemma playTracks_keeps_shadow:
  assumes "currentTrack (state p) = Some c"
  shows "nonShuffledNextTracks (playTracks tracks playIndex p) = nonShuffledNextTracks p"
    and "isShuffled (state (playTracks tracks playIndex p)) = isShuffled (state p)"
    and "shuffle (playTracks tracks playIndex p) = shuffle p"
proof -
  define q where "q = (let p1 = updSlot (isAudio1Active p) (\<lambda>audio. audio\<lparr>paused := True\<rparr>) p;
          p2 = releaseSlot True p1;
          p3 = releaseSlot False p2;
          p4 = p3\<lparr>isAudio1Active := True\<rparr>;
          p5 = p4\<lparr>state := (state p4)\<lparr>priorityTracks := []\<rparr>\<rparr>;
          p6 = (if 0 < playIndex \<and> playIndex < int (length tracks)
                then p5\<lparr>state := (state p5)\<lparr>previousTracks := slice tracks 0 (playIndex - 1)\<rparr>\<rparr>
                else p5\<lparr>state := (state p5)\<lparr>previousTracks := []\<rparr>\<rparr>)
      in p6\<lparr>state := (state p6)\<lparr>nextTracks := sliceFrom tracks playIndex\<rparr>,
                  nextTracksShared := False\<rparr>)"
  have shadow: "nonShuffledNextTracks q = nonShuffledNextTracks p"
    by (simp add: q_def Let_def releaseSlot_frame updSlot_frame)
  have shuf: "shuffle q = shuffle p"
    by (simp add: q_def Let_def releaseSlot_frame updSlot_frame)
  have cur: "currentTrack (state q) = Some c"
    using assms by (simp add: q_def Let_def releaseSlot_frame updSlot_frame)
  have shuffled: "isShuffled (state q) = isShuffled (state p)"
    by (simp add: q_def Let_def releaseSlot_frame updSlot_frame)
  have "audioSlot True q = None"
    by (simp add: q_def Let_def releaseSlot_frame audioSlot_cong_fields)
  moreover have "isAudio1Active q"
    by (simp add: q_def Let_def)
  ultimately have idle: "activeAudioElement q = None"
    by (simp add: activeAudioElement_slot)
  have "playTracks tracks playIndex p = play q"
    by (simp add: playTracks_def q_def Let_def)
  also have "\<dots> = playNextTrack (Some c) q"
    using idle cur by (simp add: play.simps)
  finally have run: "playTracks tracks playIndex p = playNextTrack (Some c) q" .
  show "nonShuffledNextTracks (playTracks tracks playIndex p) = nonShuffledNextTracks p"
    by (simp add: run playNextTrack_manual_shadow shadow)
  show "isShuffled (state (playTracks tracks playIndex p)) = isShuffled (state p)"
    by (simp add: run playNextTrack_manual_shadow shuffled)
  show "shuffle (playTracks tracks playIndex p) = shuffle p"
    by (simp add: run playNextTrack_manual_shadow shuf)
qed

text \<open>
  C4. From any queue, every sequence of \<^verbatim>\<open>enableShuffle\<close> and \<^verbatim>\<open>disableShuffle\<close>
  calls should end with \<^verbatim>\<open>disableShuffle\<close> giving back the queue in its order before
  shuffling. Load \<open>[A]\<close> into a new player and then \<open>[B, C]\<close>: \<open>A\<close> is still current, the
  queue is \<open>[B, C]\<close>, the player is not shuffled, and the shadow list is empty, since the
  second load went through \<^verbatim>\<open>playNextTrack\<close> with \<open>A\<close> as the given track and popped
  nothing. \<^verbatim>\<open>enableShuffle\<close> then empties the queue, and after any sequence of toggles
  \<^verbatim>\<open>disableShuffle\<close> leaves it empty: \<open>B\<close> and \<open>C\<close> are lost.
\<close>

theorem shuffle_toggles_lose_reloaded_queue:
  "currentTrack (state (playTracks [trackB, trackC] 0 (playTracks [trackA] 0 player0)))
     = Some trackA
   \<and> nextTracks (state (playTracks [trackB, trackC] 0 (playTracks [trackA] 0 player0)))
     = [trackB, trackC]
   \<and> isShuffled (state (playTracks [trackB, trackC] 0 (playTracks [trackA] 0 player0)))
     = False
   \<and> nonShuffledNextTracks (playTracks [trackB, trackC] 0 (playTracks [trackA] 0 player0)) = []
   \<and> nextTracks (state (playerAfter (enableShuffle
         (playTracks [trackB, trackC] 0 (playTracks [trackA] 0 player0))))) = []
   \<and> nextTracks (state (disableShuffle (applyToggles ts
         (playTracks [trackB, trackC] 0 (playTracks [trackA] 0 player0))))) = []"
proof -
  define P where "P = playTracks [trackA] 0 player0"
  define Q where "Q = playTracks [trackB, trackC] 0 P"
  have P_cur: "currentTrack (state P) = Some trackA"
    and P_shadow: "nonShuffledNextTracks P = []"
    and P_plain: "isShuffled (state P) = False"
    and P_shuffle: "shuffle P = None"
    by (simp_all add: P_def playTracks_player0)
  have Q_cur: "currentTrack (state Q) = Some trackA"
    and Q_next: "nextTracks (state Q) = [trackB, trackC]"
    using playTracks_keeps_current [OF P_cur, of "[trackB, trackC]" 0]
    by (simp_all add: Q_def sliceFrom_cases)
  have Q_shadow: "nonShuffledNextTracks Q = []"
    and Q_plain: "isShuffled (state Q) = False"
    using playTracks_keeps_shadow [OF P_cur, of "[trackB, trackC]" 0] P_shadow P_plain
    by (simp_all add: Q_def)
  have "shuffle Q = None"
    using playTracks_keeps_shadow(3) [OF P_cur, of "[trackB, trackC]" 0] P_shuffle
    by (simp add: Q_def)
  then have Q_enable: "nextTracks (state (playerAfter (enableShuffle Q))) = []"
    by (simp add: enableShuffle_nextTracks Q_shadow defaultShuffle_def)
  have Q_disable: "nextTracks (state (disableShuffle (applyToggles ts Q))) = []"
    by (simp add: disableShuffle_nextTracks applyToggles_shadow Q_shadow)
  show ?thesis
    using Q_cur Q_next Q_plain Q_shadow Q_enable Q_disable
    by (simp add: Q_def P_def)
qed

text \<open>
  C3. No public operation should let an exception escape: \<^verbatim>\<open>setVolume\<close>,
  \<^verbatim>\<open>setRepeatMode\<close>, \<^verbatim>\<open>pause\<close>, \<^verbatim>\<open>play\<close>, \<^verbatim>\<open>seek\<close>, \<^verbatim>\<open>previousTrack\<close> and
  \<^verbatim>\<open>nextTrack\<close> wrap their bodies in \<^verbatim>\<open>try\<close> and report to \<^verbatim>\<open>onError\<close>.
  \<^verbatim>\<open>enableShuffle\<close> has no \<^verbatim>\<open>try\<close>: what the supplied shuffle function throws reaches
  the caller, after \<^verbatim>\<open>isShuffled\<close> has been set, and no observer is told.
\<close>

theorem enableShuffle_propagates:
  "enableShuffle throwingPlayer =
     Thrown (PlayerError ''shuffle failed'')
       (throwingPlayer\<lparr>state := (state throwingPlayer)\<lparr>isShuffled := True\<rparr>\<rparr>)
   \<and> notifications (playerAfter (enableShuffle throwingPlayer)) = []"
  by (simp add: enableShuffle_def throwingPlayer_def player0_def newPlayer_def)

end
